theory Spec2Isabelle
  imports Main "HOL-Library.Finite_Map"
begin

section \<open>Python values, errors and JSON\<close>

text \<open>
  The client of \<^verbatim>\<open>zmon_cli/client.py\<close> works on untyped Python values: entities,
  check definitions and alert definitions are dicts, path segments are strings or
  integers, \<^verbatim>\<open>teams\<close> may be anything the caller passes.  The values the client
  inspects are modelled by \<open>pyval\<close>.  Strings are lists of \<open>char\<close>, read as the code
  points below 256; dict keys are strings; floats are not modelled.  \<open>PDatetime s\<close> is
  a \<^verbatim>\<open>datetime\<close> whose \<^verbatim>\<open>isoformat()\<close> is \<open>s\<close>; \<open>PObject n\<close> is an instance of a
  plain class (\<^verbatim>\<open>object()\<close>), which no JSON encoder accepts.
\<close>

datatype pyval =
    PNone
  | PBool bool
  | PInt int
  | PStr string
  | PList "pyval list"
  | PTuple "pyval list"
  | PDict "(string, pyval) fmap"
  | PDatetime string
  | PObject nat

type_synonym pydict = "(string, pyval) fmap"

text \<open>Truth value testing (\<^verbatim>\<open>if x:\<close>, \<^verbatim>\<open>not x\<close>, \<^verbatim>\<open>x and y\<close>).\<close>

fun truthy :: "pyval \<Rightarrow> bool" where
  "truthy PNone = False"
| "truthy (PBool b) = b"
| "truthy (PInt n) = (n \<noteq> 0)"
| "truthy (PStr s) = (s \<noteq> [])"
| "truthy (PList xs) = (xs \<noteq> [])"
| "truthy (PTuple xs) = (xs \<noteq> [])"
| "truthy (PDict m) = (m \<noteq> fmempty)"
| "truthy (PDatetime s) = True"
| "truthy (PObject n) = True"

text \<open>
  Exceptions are values.  \<open>ZmonError\<close> and \<open>ZmonArgumentError\<close> carry the text of
  \<^verbatim>\<open>str(e)\<close>; \<open>HTTPError\<close> is \<^verbatim>\<open>requests.HTTPError\<close> with the status code, reason
  and body text of the response it wraps; \<open>TransportError\<close> stands for the connection,
  timeout and TLS failures of \<^verbatim>\<open>requests\<close>.
\<close>

datatype error =
    ZmonError string
  | ZmonArgumentError string
  | HTTPError nat string string
  | TransportError string
  | JSONDecodeError
  | KeyError string
  | TypeError
  | AttributeError

text \<open>
  \<^verbatim>\<open>ZmonError.__init__\<close> prefixes its message; \<^verbatim>\<open>ZmonArgumentError\<close> inherits the
  constructor.
\<close>

definition zmon_error_message :: "string \<Rightarrow> string" where
  "zmon_error_message message = ''ZMON client error: '' @ message"

definition raise_ZmonError :: "string \<Rightarrow> error" where
  "raise_ZmonError message = ZmonError (zmon_error_message message)"

definition raise_ZmonArgumentError :: "string \<Rightarrow> error" where
  "raise_ZmonArgumentError message = ZmonArgumentError (zmon_error_message message)"

text \<open>
  JSON documents.  A value of type \<open>json\<close> is both what \<^verbatim>\<open>json.dumps\<close> writes and what
  \<^verbatim>\<open>json.loads\<close> reads back: \<^verbatim>\<open>null\<close>, booleans, integers, strings, arrays (Python
  lists) and objects (Python dicts).
\<close>

datatype json =
    JNull
  | JBool bool
  | JInt int
  | JStr string
  | JArr "json list"
  | JObj "(string, json) fmap"

text \<open>
  \<open>to_json date_encoder v\<close> is the document \<^verbatim>\<open>json.dumps(v)\<close> writes, \<open>None\<close> when the
  encoder raises \<^verbatim>\<open>TypeError\<close>.  With \<open>date_encoder\<close> the class \<^verbatim>\<open>JSONDateEncoder\<close> is in
  use: its \<^verbatim>\<open>default\<close> turns a \<^verbatim>\<open>datetime\<close> into its \<^verbatim>\<open>isoformat()\<close> and hands anything
  else to the base class, which raises.  Lists and tuples are both written as arrays.
\<close>

primrec to_json :: "bool \<Rightarrow> pyval \<Rightarrow> json option" where
  "to_json d PNone = Some JNull"
| "to_json d (PBool b) = Some (JBool b)"
| "to_json d (PInt n) = Some (JInt n)"
| "to_json d (PStr s) = Some (JStr s)"
| "to_json d (PList xs) =
     (let ys = map (to_json d) xs
      in if None \<in> set ys then None else Some (JArr (map the ys)))"
| "to_json d (PTuple xs) =
     (let ys = map (to_json d) xs
      in if None \<in> set ys then None else Some (JArr (map the ys)))"
| "to_json d (PDict m) =
     (let m' = fmmap (to_json d) m
      in if None \<in> fmran' m' then None else Some (JObj (fmmap the m')))"
| "to_json d (PDatetime s) = (if d then Some (JStr s) else None)"
| "to_json d (PObject n) = None"

definition json_dumps :: "bool \<Rightarrow> pyval \<Rightarrow> error + json" where
  "json_dumps date_encoder v =
     (case to_json date_encoder v of None \<Rightarrow> Inl TypeError | Some j \<Rightarrow> Inr j)"

text \<open>
  Python's \<^verbatim>\<open>==\<close> on decoded JSON values.  \<^verbatim>\<open>bool\<close> is a subclass of \<^verbatim>\<open>int\<close>, so
  \<^verbatim>\<open>True == 1\<close> and \<^verbatim>\<open>False == 0\<close>; lists compare elementwise; dicts compare by keys
  and values, whatever the insertion order.
\<close>

primrec py_eq :: "json \<Rightarrow> json \<Rightarrow> bool" where
  "py_eq JNull y = (y = JNull)"
| "py_eq (JBool a) y =
     (case y of JBool b \<Rightarrow> a = b | JInt n \<Rightarrow> of_bool a = n | _ \<Rightarrow> False)"
| "py_eq (JInt a) y =
     (case y of JBool b \<Rightarrow> a = of_bool b | JInt n \<Rightarrow> a = n | _ \<Rightarrow> False)"
| "py_eq (JStr a) y = (y = JStr a)"
| "py_eq (JArr xs) y =
     (case y of JArr ys \<Rightarrow> list_all2 (\<lambda>f y. f y) (map py_eq xs) ys | _ \<Rightarrow> False)"
| "py_eq (JObj m) y =
     (case y of JObj n \<Rightarrow> fmrel (\<lambda>f y. f y) (fmmap py_eq m) n | _ \<Rightarrow> False)"

section \<open>Entity comparison and entity ids\<close>

text \<open>
  \<^verbatim>\<open>
  def compare_entities(e1, e2):
      try:
          e1_copy = e1.copy()
          e1_copy.pop('last_modified', None)
          e2_copy = e2.copy()
          e2_copy.pop('last_modified', None)
          return (json.loads(json.dumps(e1_copy, cls=JSONDateEncoder)) ==
                  json.loads(json.dumps(e2_copy, cls=JSONDateEncoder)))
      except:
          logger.exception('Failed in `compare_entities`')
          return False
  \<close>
  \<open>copy_pop\<close> is the pair of statements \<^verbatim>\<open>c = e.copy(); c.pop('last_modified', None)\<close>:
  a dict gives the copy without the key, a list has \<^verbatim>\<open>copy\<close> but its \<^verbatim>\<open>pop\<close> rejects
  two arguments, every other value has no \<^verbatim>\<open>copy\<close>.  \<open>compare_entities_try\<close> is the body
  of the \<^verbatim>\<open>try\<close>, \<open>compare_entities\<close> the whole function with its handler.
\<close>

definition copy_pop :: "pyval \<Rightarrow> error + pydict" where
  "copy_pop e =
     (case e of
        PDict m \<Rightarrow> Inr (fmdrop ''last_modified'' m)
      | PList xs \<Rightarrow> Inl TypeError
      | _ \<Rightarrow> Inl AttributeError)"

definition compare_entities_try :: "pyval \<Rightarrow> pyval \<Rightarrow> error + bool" where
  "compare_entities_try e1 e2 =
     (case copy_pop e1 of
        Inl err \<Rightarrow> Inl err
      | Inr e1_copy \<Rightarrow>
          (case copy_pop e2 of
             Inl err \<Rightarrow> Inl err
           | Inr e2_copy \<Rightarrow>
               (case json_dumps True (PDict e1_copy) of
                  Inl err \<Rightarrow> Inl err
                | Inr j1 \<Rightarrow>
                    (case json_dumps True (PDict e2_copy) of
                       Inl err \<Rightarrow> Inl err
                     | Inr j2 \<Rightarrow> Inr (py_eq j1 j2)))))"

definition compare_entities :: "pyval \<Rightarrow> pyval \<Rightarrow> error + bool" where
  "compare_entities e1 e2 =
     (case compare_entities_try e1 e2 of Inl err \<Rightarrow> Inr False | Inr b \<Rightarrow> Inr b)"

text \<open>
  Regular expressions.  The two patterns of the module,
  \<^verbatim>\<open>parentheses_re = re.compile('[(]+|[)]+')\<close> and
  \<^verbatim>\<open>invalid_entity_id_re = re.compile('[^a-zA-Z0-9-@_.\[\]\:]+')\<close>,
  are alternatives of greedy runs \<^verbatim>\<open>[class]+\<close>.  Such a pattern is a list of character
  classes; \<open>match_runs\<close> is the length of its match at the start of a string (0 when
  it does not match there: the alternatives are tried in order, each takes the
  longest run), \<open>re_search\<close> is \<^verbatim>\<open>pattern.search(s)\<close> (the leftmost match) and
  \<open>re_sub\<close> is \<^verbatim>\<open>pattern.sub(repl, s)\<close> with a function \<open>repl\<close> of the matched text
  (the non-overlapping matches from left to right).
\<close>

fun match_runs :: "(char \<Rightarrow> bool) list \<Rightarrow> string \<Rightarrow> nat" where
  "match_runs [] s = 0"
| "match_runs (P # Ps) s =
     (if takeWhile P s \<noteq> [] then length (takeWhile P s) else match_runs Ps s)"

fun re_search :: "(char \<Rightarrow> bool) list \<Rightarrow> string \<Rightarrow> string option" where
  "re_search alts [] = None"
| "re_search alts (c # cs) =
     (if match_runs alts (c # cs) = 0 then re_search alts cs
      else Some (take (match_runs alts (c # cs)) (c # cs)))"

function re_sub :: "(char \<Rightarrow> bool) list \<Rightarrow> (string \<Rightarrow> string) \<Rightarrow> string \<Rightarrow> string" where
  "re_sub alts repl [] = []"
| "re_sub alts repl (c # cs) =
     (if match_runs alts (c # cs) = 0 then c # re_sub alts repl cs
      else repl (take (match_runs alts (c # cs)) (c # cs))
           @ re_sub alts repl (drop (match_runs alts (c # cs)) (c # cs)))"
  by pat_completeness auto
termination
  by (relation "measure (\<lambda>(alts, repl, s). length s)") auto

text \<open>The character classes: \<^verbatim>\<open>[(]\<close>, \<^verbatim>\<open>[)]\<close> and \<^verbatim>\<open>[^a-zA-Z0-9-@_.\[\]\:]\<close>.\<close>

definition entity_id_char :: "char \<Rightarrow> bool" where
  "entity_id_char c =
     (let n = (of_char c :: nat)
      in (97 \<le> n \<and> n \<le> 122) \<or> (65 \<le> n \<and> n \<le> 90) \<or> (48 \<le> n \<and> n \<le> 57)
         \<or> c \<in> set ''-@_.[]:'')"

definition parentheses_re :: "(char \<Rightarrow> bool) list" where
  "parentheses_re = [(\<lambda>c. c = CHR ''(''), (\<lambda>c. c = CHR '')'')]"

definition invalid_entity_id_re :: "(char \<Rightarrow> bool) list" where
  "invalid_entity_id_re = [(\<lambda>c. \<not> entity_id_char c)]"

text \<open>
  \<^verbatim>\<open>str.lower()\<close> on the code points below 256: the ASCII capitals and the Latin-1
  capitals U+00C0 to U+00DE (U+00D7, the multiplication sign, is not a letter) move
  up by 32.
\<close>

definition lower_char :: "char \<Rightarrow> char" where
  "lower_char c =
     (let n = (of_char c :: nat)
      in if (65 \<le> n \<and> n \<le> 90) \<or> (192 \<le> n \<and> n \<le> 222 \<and> n \<noteq> 215)
         then char_of (n + 32) else c)"

definition lower :: "string \<Rightarrow> string" where
  "lower s = map lower_char s"

text \<open>
  \<^verbatim>\<open>
  def get_valid_entity_id(e):
      return invalid_entity_id_re.sub(
          '-', parentheses_re.sub(lambda m: '[' if '(' in m.group() else ']', e.lower()))

  @staticmethod
  def is_valid_entity_id(entity_id):
      return invalid_entity_id_re.search(entity_id) is None
  \<close>
\<close>

definition get_valid_entity_id :: "string \<Rightarrow> string" where
  "get_valid_entity_id e =
     re_sub invalid_entity_id_re (\<lambda>m. ''-'')
       (re_sub parentheses_re (\<lambda>m. if CHR ''('' \<in> set m then ''['' else '']'') (lower e))"

definition is_valid_entity_id :: "string \<Rightarrow> bool" where
  "is_valid_entity_id entity_id = (re_search invalid_entity_id_re entity_id = None)"

section \<open>Strings and URLs\<close>

text \<open>
  The string methods the client and \<^verbatim>\<open>urllib.parse\<close> use: \<^verbatim>\<open>s.split(sep)\<close> for a
  one-character separator, \<^verbatim>\<open>sep.join(parts)\<close>, \<^verbatim>\<open>s.strip(chars)\<close>, and the decimal
  text \<^verbatim>\<open>str(n)\<close> of an integer.
\<close>

fun split_on :: "char \<Rightarrow> string \<Rightarrow> string list" where
  "split_on sep [] = [[]]"
| "split_on sep (c # cs) =
     (if c = sep then [] # split_on sep cs
      else (case split_on sep cs of [] \<Rightarrow> [[c]] | w # ws \<Rightarrow> (c # w) # ws))"

fun join :: "string \<Rightarrow> string list \<Rightarrow> string" where
  "join sep [] = []"
| "join sep [p] = p"
| "join sep (p # q # ps) = p @ sep @ join sep (q # ps)"

definition strip :: "(char \<Rightarrow> bool) \<Rightarrow> string \<Rightarrow> string" where
  "strip chars s = rev (dropWhile chars (rev (dropWhile chars s)))"

fun str_nat :: "nat \<Rightarrow> string" where
  "str_nat n =
     (if n < 10 then [char_of (48 + n)]
      else str_nat (n div 10) @ [char_of (48 + n mod 10)])"

declare str_nat.simps [simp del]

definition str_int :: "int \<Rightarrow> string" where
  "str_int i = (if i < 0 then CHR ''-'' # str_nat (nat (- i)) else str_nat (nat i))"

text \<open>
  What the client takes from the interpreter and its libraries is a parameter of the
  model: \<open>py_repr\<close> is \<^verbatim>\<open>str(v)\<close> for the values whose text is not fixed below
  (containers, datetimes, objects); \<open>ast_parse src\<close> is \<open>None\<close> when \<^verbatim>\<open>ast.parse(src)\<close>
  returns and \<open>Some m\<close> when it raises an exception \<^verbatim>\<open>e\<close> with \<^verbatim>\<open>str(e) = m\<close>;
  \<open>json_parse\<close> is the JSON decoder behind \<^verbatim>\<open>resp.json()\<close>, \<open>None\<close> on a body that is
  not JSON.
\<close>

record pyenv =
  py_repr :: "pyval \<Rightarrow> string"
  ast_parse :: "pyval \<Rightarrow> string option"
  json_parse :: "string \<Rightarrow> json option"

definition py_str :: "pyenv \<Rightarrow> pyval \<Rightarrow> string" where
  "py_str env v =
     (case v of
        PStr s \<Rightarrow> s
      | PInt n \<Rightarrow> str_int n
      | PBool b \<Rightarrow> (if b then ''True'' else ''False'')
      | PNone \<Rightarrow> ''None''
      | _ \<Rightarrow> py_repr env v)"

text \<open>
  \<^verbatim>\<open>urllib.parse\<close>, as CPython 3.11 implements \<^verbatim>\<open>urlsplit\<close>, \<^verbatim>\<open>urlparse\<close>,
  \<^verbatim>\<open>urlunsplit\<close>, \<^verbatim>\<open>urlunparse\<close> and \<^verbatim>\<open>urljoin\<close> on \<^verbatim>\<open>str\<close> arguments.  The
  \<^verbatim>\<open>ValueError\<close> that \<^verbatim>\<open>urlsplit\<close> raises on a malformed bracketed host is not
  modelled: network locations are taken to be well formed.
\<close>

definition uses_relative :: "string list" where
  "uses_relative = ['''', ''ftp'', ''http'', ''gopher'', ''nntp'', ''imap'',
     ''wais'', ''file'', ''https'', ''shttp'', ''mms'',
     ''prospero'', ''rtsp'', ''rtsps'', ''rtspu'', ''sftp'',
     ''svn'', ''svn+ssh'', ''ws'', ''wss'']"

definition uses_netloc :: "string list" where
  "uses_netloc = ['''', ''ftp'', ''http'', ''gopher'', ''nntp'', ''telnet'',
     ''imap'', ''wais'', ''file'', ''mms'', ''https'', ''shttp'',
     ''snews'', ''prospero'', ''rtsp'', ''rtsps'', ''rtspu'', ''rsync'',
     ''svn'', ''svn+ssh'', ''sftp'', ''nfs'', ''git'', ''git+ssh'',
     ''ws'', ''wss'']"

definition uses_params :: "string list" where
  "uses_params = ['''', ''ftp'', ''hdl'', ''prospero'', ''http'', ''imap'',
     ''https'', ''shttp'', ''rtsp'', ''rtsps'', ''rtspu'', ''sip'',
     ''sips'', ''mms'', ''sftp'', ''tel'']"

definition ascii_alpha :: "char \<Rightarrow> bool" where
  "ascii_alpha c =
     (let n = (of_char c :: nat) in (97 \<le> n \<and> n \<le> 122) \<or> (65 \<le> n \<and> n \<le> 90))"

definition scheme_char :: "char \<Rightarrow> bool" where
  "scheme_char c =
     (let n = (of_char c :: nat)
      in (97 \<le> n \<and> n \<le> 122) \<or> (65 \<le> n \<and> n \<le> 90) \<or> (48 \<le> n \<and> n \<le> 57)
         \<or> c \<in> set ''+-.'')"

definition c0_control_or_space :: "char \<Rightarrow> bool" where
  "c0_control_or_space c = ((of_char c :: nat) \<le> 32)"

definition unsafe_url_byte :: "char \<Rightarrow> bool" where
  "unsafe_url_byte c = ((of_char c :: nat) \<in> {9, 13, 10})"

text \<open>\<^verbatim>\<open>a, b = s.split(ch, 1)\<close> for a string that contains \<open>ch\<close>.\<close>

definition split_once :: "char \<Rightarrow> string \<Rightarrow> string \<times> string" where
  "split_once ch s = (takeWhile (\<lambda>c. c \<noteq> ch) s, drop 1 (dropWhile (\<lambda>c. c \<noteq> ch) s))"

record split_result =
  scheme :: string
  netloc :: string
  path :: string
  query :: string
  fragment :: string

definition splitnetloc :: "string \<Rightarrow> string \<times> string" where
  "splitnetloc url =
     (takeWhile (\<lambda>c. c \<notin> set ''/?#'') (drop 2 url),
      dropWhile (\<lambda>c. c \<notin> set ''/?#'') (drop 2 url))"

definition urlsplit :: "string \<Rightarrow> string \<Rightarrow> split_result" where
  "urlsplit url0 scheme0 =
     (let url1 = filter (\<lambda>c. \<not> unsafe_url_byte c) (dropWhile c0_control_or_space url0);
          scheme1 = filter (\<lambda>c. \<not> unsafe_url_byte c) (strip c0_control_or_space scheme0);
          pre = takeWhile (\<lambda>c. c \<noteq> CHR '':'') url1;
          found = (CHR '':'' \<in> set url1 \<and> pre \<noteq> [] \<and> ascii_alpha (hd pre)
                   \<and> list_all scheme_char pre);
          scheme2 = (if found then lower pre else scheme1);
          url2 = (if found then drop (length pre + 1) url1 else url1);
          netloc2 = (if take 2 url2 = ''//'' then fst (splitnetloc url2) else []);
          url3 = (if take 2 url2 = ''//'' then snd (splitnetloc url2) else url2);
          fragment2 = (if CHR ''#'' \<in> set url3 then snd (split_once (CHR ''#'') url3) else []);
          url4 = (if CHR ''#'' \<in> set url3 then fst (split_once (CHR ''#'') url3) else url3);
          query2 = (if CHR ''?'' \<in> set url4 then snd (split_once (CHR ''?'') url4) else []);
          url5 = (if CHR ''?'' \<in> set url4 then fst (split_once (CHR ''?'') url4) else url4)
      in \<lparr>scheme = scheme2, netloc = netloc2, path = url5, query = query2,
          fragment = fragment2\<rparr>)"

text \<open>
  \<^verbatim>\<open>urlparse\<close> splits the parameters off the last path segment at its first
  \<^verbatim>\<open>;\<close> (\<^verbatim>\<open>_splitparams\<close>); \<^verbatim>\<open>urlunparse\<close> puts them back.
\<close>

record parse_result = split_result +
  params :: string

definition splitparams :: "string \<Rightarrow> string \<times> string" where
  "splitparams url =
     (let seg = last (split_on (CHR ''/'') url);
          front = take (length url - length seg) url
      in if CHR '';'' \<in> set seg
         then (front @ fst (split_once (CHR '';'') seg), snd (split_once (CHR '';'') seg))
         else (url, []))"

definition urlparse :: "string \<Rightarrow> string \<Rightarrow> parse_result" where
  "urlparse url0 scheme0 =
     (let r = urlsplit url0 scheme0;
          split = (scheme r \<in> set uses_params \<and> CHR '';'' \<in> set (path r))
      in \<lparr>scheme = scheme r, netloc = netloc r,
          path = (if split then fst (splitparams (path r)) else path r),
          query = query r, fragment = fragment r,
          params = (if split then snd (splitparams (path r)) else [])\<rparr>)"

definition urlunsplit :: "split_result \<Rightarrow> string" where
  "urlunsplit c =
     (let url1 =
            (if netloc c \<noteq> [] \<or> (scheme c \<noteq> [] \<and> scheme c \<in> set uses_netloc)
                \<or> take 2 (path c) = ''//''
             then ''//'' @ netloc c
                  @ (if path c \<noteq> [] \<and> take 1 (path c) \<noteq> ''/'' then ''/'' @ path c
                     else path c)
             else path c);
          url2 = (if scheme c \<noteq> [] then scheme c @ '':'' @ url1 else url1);
          url3 = (if query c \<noteq> [] then url2 @ ''?'' @ query c else url2)
      in if fragment c \<noteq> [] then url3 @ ''#'' @ fragment c else url3)"

definition urlunparse :: "parse_result \<Rightarrow> string" where
  "urlunparse c =
     urlunsplit \<lparr>scheme = scheme c, netloc = netloc c,
       path = (if params c \<noteq> [] then path c @ '';'' @ params c else path c),
       query = query c, fragment = fragment c\<rparr>"

text \<open>
  \<^verbatim>\<open>urljoin(base, url)\<close>.  \<open>filter_middle\<close> is the statement
  \<^verbatim>\<open>segments[1:-1] = filter(None, segments[1:-1])\<close>; \<open>resolve_segments\<close> is the loop that
  drops \<^verbatim>\<open>.\<close> and lets \<^verbatim>\<open>..\<close> pop the segment before it (a pop from the empty list
  is ignored).
\<close>

definition filter_middle :: "string list \<Rightarrow> string list" where
  "filter_middle segments =
     (case segments of
        [] \<Rightarrow> []
      | [s] \<Rightarrow> [s]
      | s # rest \<Rightarrow> s # filter (\<lambda>x. x \<noteq> []) (butlast rest) @ [last rest])"

fun resolve_segments :: "string list \<Rightarrow> string list \<Rightarrow> string list" where
  "resolve_segments resolved_path [] = resolved_path"
| "resolve_segments resolved_path (seg # segs) =
     (if seg = ''..'' then resolve_segments (butlast resolved_path) segs
      else if seg = ''.'' then resolve_segments resolved_path segs
      else resolve_segments (resolved_path @ [seg]) segs)"

definition urljoin :: "string \<Rightarrow> string \<Rightarrow> string" where
  "urljoin base url =
     (if base = [] then url
      else if url = [] then base
      else
        let b = urlparse base [];
            u = urlparse url (scheme b)
        in if scheme u \<noteq> scheme b \<or> scheme u \<notin> set uses_relative then url
           else if scheme u \<in> set uses_netloc \<and> netloc u \<noteq> [] then urlunparse u
           else
             let netloc1 = (if scheme u \<in> set uses_netloc then netloc b else netloc u)
             in if path u = [] \<and> params u = []
                then urlunparse (u\<lparr>netloc := netloc1, path := path b, params := params b,
                       query := (if query u = [] then query b else query u)\<rparr>)
                else
                  let base_parts0 = split_on (CHR ''/'') (path b);
                      base_parts = (if last base_parts0 \<noteq> [] then butlast base_parts0
                                    else base_parts0);
                      segments =
                        (if take 1 (path u) = ''/'' then split_on (CHR ''/'') (path u)
                         else filter_middle (base_parts @ split_on (CHR ''/'') (path u)));
                      resolved0 = resolve_segments [] segments;
                      resolved_path =
                        (if last segments \<in> {''.'', ''..''} then resolved0 @ [[]]
                         else resolved0);
                      joined = join ''/'' resolved_path
                  in urlunparse (u\<lparr>netloc := netloc1,
                       path := (if joined = [] then ''/'' else joined)\<rparr>))"

section \<open>The client: configuration, session and endpoints\<close>

definition API_VERSION :: string where "API_VERSION = ''v1''"
definition ALERT_DEF :: string where "ALERT_DEF = ''alert-definitions''"
definition CHECK_DEF :: string where "CHECK_DEF = ''check-definitions''"
definition ENTITIES :: string where "ENTITIES = ''entities''"
definition GROUPS :: string where "GROUPS = ''groups''"
definition MEMBER :: string where "MEMBER = ''member''"
definition SEARCH :: string where "SEARCH = ''quick-search''"

text \<open>
  A \<^verbatim>\<open>requests.Session\<close>: the attributes the constructor of the client sets.  A new
  session has no \<^verbatim>\<open>auth\<close>, verifies TLS and carries the default headers of the
  library, none of which is \<^verbatim>\<open>Authorization\<close>.
\<close>

record session =
  timeout :: pyval
  auth :: "(pyval \<times> pyval) option"
  headers :: "(string, string) fmap"
  verify :: bool

definition default_headers :: "(string, string) fmap" where
  "default_headers =
     fmap_of_list [(''User-Agent'', ''python-requests''),
       (''Accept-Encoding'', ''gzip, deflate''), (''Accept'', ''*/*''),
       (''Connection'', ''keep-alive'')]"

definition requests_Session :: session where
  "requests_Session =
     \<lparr>timeout = PNone, auth = None, headers = default_headers, verify = True\<rparr>"

record zmon =
  zmon_timeout :: pyval
  base_url :: string
  url :: string
  zmon_session :: session
  user_agent :: string

text \<open>
  \<^verbatim>\<open>
  def _join_path(self, parts):
      return '/'.join(str(p).strip('/') for p in parts)
  \<close>
\<close>

definition join_path :: "pyenv \<Rightarrow> pyval list \<Rightarrow> string" where
  "join_path env parts = join ''/'' (map (\<lambda>p. strip (\<lambda>c. c = CHR ''/'') (py_str env p)) parts)"

text \<open>
  \<^verbatim>\<open>
  def __init__(self, url, token=None, username=None, password=None, timeout=10,
               verify=True, user_agent=ZMON_USER_AGENT):
      self.timeout = timeout
      split = urlsplit(url)
      self.base_url = urlunsplit(SplitResult(split.scheme, split.netloc, '', '', ''))
      self.url = urljoin(self.base_url, self._join_path(['api', API_VERSION, '']))
      self._session = requests.Session()
      self._session.timeout = timeout
      self.user_agent = user_agent
      if username and password and token is None:
          self._session.auth = (username, password)
      self._session.headers.update({'User-Agent': user_agent, 'Content-Type': 'application/json'})
      if token:
          self._session.headers.update({'Authorization': 'Bearer {}'.format(token)})
      if not verify:
          logger.warning('ZMON client will skip SSL verification!')
          requests.packages.urllib3.disable_warnings()
          self._session.verify = False
  \<close>
  The token, user name and password are any Python values; \<open>PNone\<close> is the default.
\<close>

definition Zmon_init ::
  "pyenv \<Rightarrow> string \<Rightarrow> pyval \<Rightarrow> pyval \<Rightarrow> pyval \<Rightarrow> pyval \<Rightarrow> bool \<Rightarrow> string \<Rightarrow> zmon" where
  "Zmon_init env url0 token username password timeout0 verify0 user_agent0 =
     (let split = urlsplit url0 [];
          base = urlunsplit \<lparr>scheme = scheme split, netloc = netloc split, path = [],
                   query = [], fragment = []\<rparr>;
          s1 = requests_Session\<lparr>timeout := timeout0\<rparr>;
          s2 = (if truthy username \<and> truthy password \<and> token = PNone
                then s1\<lparr>auth := Some (username, password)\<rparr> else s1);
          s3 = s2\<lparr>headers := fmupd ''Content-Type'' ''application/json''
                               (fmupd ''User-Agent'' user_agent0 (headers s2))\<rparr>;
          s4 = (if truthy token
                then s3\<lparr>headers := fmupd ''Authorization'' (''Bearer '' @ py_str env token)
                                      (headers s3)\<rparr>
                else s3);
          s5 = (if \<not> verify0 then s4\<lparr>verify := False\<rparr> else s4)
      in \<lparr>zmon_timeout = timeout0, base_url = base,
          url = urljoin base (join_path env [PStr ''api'', PStr API_VERSION, PStr []]),
          zmon_session = s5, user_agent = user_agent0\<rparr>)"

text \<open>
  \<^verbatim>\<open>
  def endpoint(self, *args, trailing_slash=True, base_url=None):
      parts = list(args)
      # Ensure trailing slash!
      if trailing_slash:
          parts.append('')
      url = self.url if not base_url else base_url
      return urljoin(url, self._join_path(parts))
  \<close>
  The override \<open>base_url\<close> is \<open>None\<close> or a string; \<^verbatim>\<open>not base_url\<close> holds of \<open>None\<close> and
  of the empty string.
\<close>

definition endpoint :: "pyenv \<Rightarrow> zmon \<Rightarrow> pyval list \<Rightarrow> bool \<Rightarrow> string option \<Rightarrow> string" where
  "endpoint env self args trailing_slash base_url0 =
     (let parts = (if trailing_slash then args @ [PStr []] else args);
          url0 = (case base_url0 of
                    None \<Rightarrow> url self
                  | Some b \<Rightarrow> if b = [] then url self else b)
      in urljoin url0 (join_path env parts))"

section \<open>Requests and responses\<close>

text \<open>
  A response is what the client reads of a \<^verbatim>\<open>requests.Response\<close>: \<^verbatim>\<open>status_code\<close>,
  \<^verbatim>\<open>reason\<close> and \<^verbatim>\<open>text\<close>.  A request records the verb, the URL, the \<^verbatim>\<open>params\<close>, the
  body (the document passed as \<^verbatim>\<open>data=\<close> or encoded from \<^verbatim>\<open>json=\<close>) and the headers and
  credentials of the session that sends it.  The backend answers a request with a
  response or with a transport failure (\<open>Inl\<close> of its message).  The list \<open>sent\<close> that every operation threads
  is the log of the network calls made so far.  The decorator \<^verbatim>\<open>logged\<close> writes a log
  line and re-raises: it changes no result and is left out.
\<close>

record response =
  status_code :: nat
  reason :: string
  resp_text :: string

record request =
  rq_method :: string
  rq_url :: string
  rq_params :: "(string \<times> pyval) list"
  rq_body :: "json option"
  rq_headers :: "(string, string) fmap"
  rq_auth :: "(pyval \<times> pyval) option"

type_synonym backend = "request \<Rightarrow> string + response"

definition session_request ::
  "session \<Rightarrow> backend \<Rightarrow> string \<Rightarrow> string \<Rightarrow> (string \<times> pyval) list \<Rightarrow> json option
   \<Rightarrow> request list \<Rightarrow> (error + response) \<times> request list" where
  "session_request s be meth u ps body sent =
     (let rq = \<lparr>rq_method = meth, rq_url = u, rq_params = ps, rq_body = body,
                 rq_headers = headers s, rq_auth = auth s\<rparr>
      in (case be rq of Inl failure \<Rightarrow> Inl (TransportError failure) | Inr resp \<Rightarrow> Inr resp,
          sent @ [rq]))"

text \<open>
  \<^verbatim>\<open>session.post(url, json=value)\<close> and \<^verbatim>\<open>session.put(url, json=value)\<close> encode the value
  with the default encoder before anything is sent; a value it rejects raises.
\<close>

definition session_request_json ::
  "session \<Rightarrow> backend \<Rightarrow> string \<Rightarrow> string \<Rightarrow> pyval \<Rightarrow> request list
   \<Rightarrow> (error + response) \<times> request list" where
  "session_request_json s be meth u v sent =
     (case json_dumps False v of
        Inl err \<Rightarrow> (Inl err, sent)
      | Inr body \<Rightarrow> session_request s be meth u [] (Some body) sent)"

text \<open>
  \<^verbatim>\<open>resp.raise_for_status()\<close> of \<^verbatim>\<open>requests\<close> raises \<^verbatim>\<open>HTTPError\<close> on a client error
  (400 to 499) and on a server error (500 to 599); \<^verbatim>\<open>resp.ok\<close> is true when it does
  not raise.  \<^verbatim>\<open>resp.json()\<close> decodes the body.
  \<^verbatim>\<open>
  def json(self, resp):
      resp.raise_for_status()
      return resp.json()
  \<close>
\<close>

definition raise_for_status :: "response \<Rightarrow> error + unit" where
  "raise_for_status resp =
     (if 400 \<le> status_code resp \<and> status_code resp < 600
      then Inl (HTTPError (status_code resp) (reason resp) (resp_text resp))
      else Inr ())"

definition resp_json :: "pyenv \<Rightarrow> response \<Rightarrow> error + json" where
  "resp_json env resp =
     (case json_parse env (resp_text resp) of None \<Rightarrow> Inl JSONDecodeError | Some j \<Rightarrow> Inr j)"

definition zmon_json :: "pyenv \<Rightarrow> response \<Rightarrow> error + json" where
  "zmon_json env resp =
     (case raise_for_status resp of Inl err \<Rightarrow> Inl err | Inr u \<Rightarrow> resp_json env resp)"

definition dq :: string where
  "dq = [CHR 0x22]"

section \<open>Resource operations\<close>

text \<open>
  \<^verbatim>\<open>
  def add_entity(self, entity: dict) -> requests.Response:
      if 'id' not in entity or 'type' not in entity:
          raise ZmonArgumentError('Entity "id" and "type" are required.')
      if not self.is_valid_entity_id(entity['id']):
          raise ZmonArgumentError('Invalid entity ID.')
      logger.debug('Adding new entity: {} ...'.format(entity['id']))
      data = json.dumps(entity, cls=JSONDateEncoder)
      resp = self.session.put(self.endpoint(ENTITIES, trailing_slash=False), data=data)
      resp.raise_for_status()
      return resp
  \<close>
  The pattern search of \<^verbatim>\<open>is_valid_entity_id\<close> raises \<^verbatim>\<open>TypeError\<close> on an id that is not
  a string.
\<close>

definition add_entity ::
  "pyenv \<Rightarrow> zmon \<Rightarrow> backend \<Rightarrow> pydict \<Rightarrow> request list \<Rightarrow> (error + response) \<times> request list" where
  "add_entity env self be entity sent =
     (if fmlookup entity ''id'' = None \<or> fmlookup entity ''type'' = None
      then (Inl (raise_ZmonArgumentError
                   (''Entity '' @ dq @ ''id'' @ dq @ '' and '' @ dq @ ''type'' @ dq
                    @ '' are required.'')), sent)
      else
        (case fmlookup entity ''id'' of
           Some (PStr entity_id) \<Rightarrow>
             if \<not> is_valid_entity_id entity_id
             then (Inl (raise_ZmonArgumentError ''Invalid entity ID.''), sent)
             else
               (case json_dumps True (PDict entity) of
                  Inl err \<Rightarrow> (Inl err, sent)
                | Inr data \<Rightarrow>
                    (case session_request (zmon_session self) be ''PUT''
                            (endpoint env self [PStr ENTITIES] False None) [] (Some data) sent of
                       (Inl err, sent') \<Rightarrow> (Inl err, sent')
                     | (Inr resp, sent') \<Rightarrow>
                         (case raise_for_status resp of
                            Inl err \<Rightarrow> (Inl err, sent')
                          | Inr u \<Rightarrow> (Inr resp, sent'))))
         | _ \<Rightarrow> (Inl TypeError, sent)))"

text \<open>
  \<^verbatim>\<open>
  def get_check_definition(self, definition_id: int) -> dict:
      resp = self.session.get(self.endpoint(CHECK_DEF, definition_id))
      # TODO: total hack! API returns 200 if check def does not exist!
      if resp.text == '':
          resp.status_code = 404
          resp.reason = 'Not Found'
      return self.json(resp)
  \<close>
\<close>

definition get_check_definition ::
  "pyenv \<Rightarrow> zmon \<Rightarrow> backend \<Rightarrow> pyval \<Rightarrow> request list \<Rightarrow> (error + json) \<times> request list" where
  "get_check_definition env self be definition_id sent =
     (case session_request (zmon_session self) be ''GET''
             (endpoint env self [PStr CHECK_DEF, definition_id] True None) [] None sent of
        (Inl err, sent') \<Rightarrow> (Inl err, sent')
      | (Inr resp, sent') \<Rightarrow>
          (let resp' = (if resp_text resp = []
                        then resp\<lparr>status_code := 404, reason := ''Not Found''\<rparr>
                        else resp)
           in (zmon_json env resp', sent')))"

text \<open>
  \<^verbatim>\<open>
  @staticmethod
  def validate_check_command(src):
      try:
          ast.parse(src)
      except Exception as e:
          raise ZmonError('Invalid check command: {}'.format(e))

  def update_check_definition(self, check_definition: dict) -> dict:
      if 'owning_team' not in check_definition:
          raise ZmonArgumentError('Check definition must have "owning_team"')
      if 'status' not in check_definition:
          check_definition['status'] = 'ACTIVE'
      self.validate_check_command(check_definition['command'])
      resp = self.session.post(self.endpoint(CHECK_DEF), json=check_definition)
      return self.json(resp)
  \<close>
  The operations that write into their argument return, next to the result and the
  log, the dict as the caller finds it afterwards.
\<close>

definition validate_check_command :: "pyenv \<Rightarrow> pyval \<Rightarrow> error + unit" where
  "validate_check_command env src =
     (case ast_parse env src of
        None \<Rightarrow> Inr ()
      | Some e \<Rightarrow> Inl (raise_ZmonError (''Invalid check command: '' @ e)))"

definition set_default_status :: "pydict \<Rightarrow> pydict" where
  "set_default_status d =
     (if fmlookup d ''status'' = None then fmupd ''status'' (PStr ''ACTIVE'') d else d)"

definition update_check_definition ::
  "pyenv \<Rightarrow> zmon \<Rightarrow> backend \<Rightarrow> pydict \<Rightarrow> request list
   \<Rightarrow> (error + json) \<times> pydict \<times> request list" where
  "update_check_definition env self be check_definition sent =
     (if fmlookup check_definition ''owning_team'' = None
      then (Inl (raise_ZmonArgumentError
                   (''Check definition must have '' @ dq @ ''owning_team'' @ dq)),
            check_definition, sent)
      else
        (let cd = set_default_status check_definition
         in case fmlookup cd ''command'' of
              None \<Rightarrow> (Inl (KeyError ''command''), cd, sent)
            | Some src \<Rightarrow>
                (case validate_check_command env src of
                   Inl err \<Rightarrow> (Inl err, cd, sent)
                 | Inr u \<Rightarrow>
                     (case session_request_json (zmon_session self) be ''POST''
                             (endpoint env self [PStr CHECK_DEF] True None) (PDict cd) sent of
                        (Inl err, sent') \<Rightarrow> (Inl err, cd, sent')
                      | (Inr resp, sent') \<Rightarrow> (zmon_json env resp, cd, sent')))))"

text \<open>
  \<^verbatim>\<open>
  def create_alert_definition(self, alert_definition: dict) -> dict:
      if 'last_modified_by' not in alert_definition:
          raise ZmonArgumentError('Alert definition must have "last_modified_by"')
      if 'status' not in alert_definition:
          alert_definition['status'] = 'ACTIVE'
      if 'check_definition_id' not in alert_definition:
          raise ZmonArgumentError('Alert defintion must have "check_definition_id"')
      resp = self.session.post(self.endpoint(ALERT_DEF), json=alert_definition)
      return self.json(resp)
  \<close>
\<close>

definition create_alert_definition ::
  "pyenv \<Rightarrow> zmon \<Rightarrow> backend \<Rightarrow> pydict \<Rightarrow> request list
   \<Rightarrow> (error + json) \<times> pydict \<times> request list" where
  "create_alert_definition env self be alert_definition sent =
     (if fmlookup alert_definition ''last_modified_by'' = None
      then (Inl (raise_ZmonArgumentError
                   (''Alert definition must have '' @ dq @ ''last_modified_by'' @ dq)),
            alert_definition, sent)
      else
        (let ad = set_default_status alert_definition
         in if fmlookup ad ''check_definition_id'' = None
            then (Inl (raise_ZmonArgumentError
                         (''Alert defintion must have '' @ dq @ ''check_definition_id'' @ dq)),
                  ad, sent)
            else
              (case session_request_json (zmon_session self) be ''POST''
                      (endpoint env self [PStr ALERT_DEF] True None) (PDict ad) sent of
                 (Inl err, sent') \<Rightarrow> (Inl err, ad, sent')
               | (Inr resp, sent') \<Rightarrow> (zmon_json env resp, ad, sent'))))"

text \<open>
  \<^verbatim>\<open>
  def update_alert_definition(self, alert_definition: dict) -> dict:
      if 'last_modified_by' not in alert_definition:
          raise ZmonArgumentError('Alert definition must have "last_modified_by"')
      if 'id' not in alert_definition:
          raise ZmonArgumentError('Alert definition must have "id"')
      if 'check_definition_id' not in alert_definition:
          raise ZmonArgumentError('Alert defintion must have "check_definition_id"')
      if 'status' not in alert_definition:
          alert_definition['status'] = 'ACTIVE'
      resp = self.session.put(
          self.endpoint(ALERT_DEF, alert_definition['id']), json=alert_definition)
      return self.json(resp)
  \<close>
\<close>

definition update_alert_definition ::
  "pyenv \<Rightarrow> zmon \<Rightarrow> backend \<Rightarrow> pydict \<Rightarrow> request list
   \<Rightarrow> (error + json) \<times> pydict \<times> request list" where
  "update_alert_definition env self be alert_definition sent =
     (if fmlookup alert_definition ''last_modified_by'' = None
      then (Inl (raise_ZmonArgumentError
                   (''Alert definition must have '' @ dq @ ''last_modified_by'' @ dq)),
            alert_definition, sent)
      else
        (case fmlookup alert_definition ''id'' of
           None \<Rightarrow>
             (Inl (raise_ZmonArgumentError (''Alert definition must have '' @ dq @ ''id'' @ dq)),
              alert_definition, sent)
         | Some alert_id \<Rightarrow>
             if fmlookup alert_definition ''check_definition_id'' = None
             then (Inl (raise_ZmonArgumentError
                          (''Alert defintion must have '' @ dq @ ''check_definition_id'' @ dq)),
                   alert_definition, sent)
             else
               (let ad = set_default_status alert_definition
                in case session_request_json (zmon_session self) be ''PUT''
                          (endpoint env self [PStr ALERT_DEF, alert_id] True None) (PDict ad)
                          sent of
                     (Inl err, sent') \<Rightarrow> (Inl err, ad, sent')
                   | (Inr resp, sent') \<Rightarrow> (zmon_json env resp, ad, sent'))))"

text \<open>
  \<^verbatim>\<open>
  def search(self, q, teams: list=None) -> dict:
      if not q:
          raise ZmonArgumentError('No search query value!')
      if teams and type(teams) not in (list, tuple):
          raise ZmonArgumentError('"teams" should be a list!')
      params = {'query': q}
      if teams:
          params['teams'] = ','.join(teams)
      resp = self.session.get(self.endpoint(SEARCH), params=params)
      return self.json(resp)
  \<close>
  \<open>str_join\<close> is \<^verbatim>\<open>sep.join(xs)\<close>, which raises \<^verbatim>\<open>TypeError\<close> on an item that is not a
  string.
\<close>

fun strings_of :: "pyval list \<Rightarrow> string list option" where
  "strings_of [] = Some []"
| "strings_of (PStr s # xs) = (case strings_of xs of None \<Rightarrow> None | Some ss \<Rightarrow> Some (s # ss))"
| "strings_of (x # xs) = None"

definition str_join :: "string \<Rightarrow> pyval list \<Rightarrow> error + string" where
  "str_join sep xs =
     (case strings_of xs of None \<Rightarrow> Inl TypeError | Some ss \<Rightarrow> Inr (join sep ss))"

text \<open>
  \<^verbatim>\<open>type(teams) in (list, tuple)\<close>, and the items \<^verbatim>\<open>join\<close> iterates over.
\<close>

fun is_list_or_tuple :: "pyval \<Rightarrow> bool" where
  "is_list_or_tuple (PList xs) = True"
| "is_list_or_tuple (PTuple xs) = True"
| "is_list_or_tuple v = False"

fun items :: "pyval \<Rightarrow> pyval list" where
  "items (PList xs) = xs"
| "items (PTuple xs) = xs"
| "items v = []"

definition search ::
  "pyenv \<Rightarrow> zmon \<Rightarrow> backend \<Rightarrow> pyval \<Rightarrow> pyval \<Rightarrow> request list
   \<Rightarrow> (error + json) \<times> request list" where
  "search env self be q teams sent =
     (if \<not> truthy q
      then (Inl (raise_ZmonArgumentError ''No search query value!''), sent)
      else if truthy teams \<and> \<not> is_list_or_tuple teams
      then (Inl (raise_ZmonArgumentError (dq @ ''teams'' @ dq @ '' should be a list!'')), sent)
      else
        (case (if truthy teams
               then (case str_join '','' (items teams) of
                       Inl err \<Rightarrow> Inl err
                     | Inr joined \<Rightarrow> Inr [(''query'', q), (''teams'', PStr joined)])
               else Inr [(''query'', q)]) of
           Inl err \<Rightarrow> (Inl err, sent)
         | Inr params0 \<Rightarrow>
             (case session_request (zmon_session self) be ''GET''
                     (endpoint env self [PStr SEARCH] True None) params0 None sent of
                (Inl err, sent') \<Rightarrow> (Inl err, sent')
              | (Inr resp, sent') \<Rightarrow> (zmon_json env resp, sent'))))"

text \<open>
  \<^verbatim>\<open>
  def add_member(self, group_name, user_name):
      resp = self.session.put(self.endpoint(GROUPS, group_name, MEMBER, user_name))
      resp.raise_for_status
      return resp.text == '1'

  def remove_member(self, group_name, user_name):
      resp = self.session.delete(self.endpoint(GROUPS, group_name, MEMBER, user_name))
      resp.raise_for_status()
      return resp.text == '1'
  \<close>
  In \<^verbatim>\<open>add_member\<close> the expression \<^verbatim>\<open>resp.raise_for_status\<close> names the method and does
  not call it: the statement has no effect.
\<close>

definition add_member ::
  "pyenv \<Rightarrow> zmon \<Rightarrow> backend \<Rightarrow> pyval \<Rightarrow> pyval \<Rightarrow> request list
   \<Rightarrow> (error + bool) \<times> request list" where
  "add_member env self be group_name user_name sent =
     (case session_request (zmon_session self) be ''PUT''
             (endpoint env self [PStr GROUPS, group_name, PStr MEMBER, user_name] True None)
             [] None sent of
        (Inl err, sent') \<Rightarrow> (Inl err, sent')
      | (Inr resp, sent') \<Rightarrow> (Inr (resp_text resp = ''1''), sent'))"

definition remove_member ::
  "pyenv \<Rightarrow> zmon \<Rightarrow> backend \<Rightarrow> pyval \<Rightarrow> pyval \<Rightarrow> request list
   \<Rightarrow> (error + bool) \<times> request list" where
  "remove_member env self be group_name user_name sent =
     (case session_request (zmon_session self) be ''DELETE''
             (endpoint env self [PStr GROUPS, group_name, PStr MEMBER, user_name] True None)
             [] None sent of
        (Inl err, sent') \<Rightarrow> (Inl err, sent')
      | (Inr resp, sent') \<Rightarrow>
          (case raise_for_status resp of
             Inl err \<Rightarrow> (Inl err, sent')
           | Inr u \<Rightarrow> (Inr (resp_text resp = ''1''), sent')))"

section \<open>The normal form of an entity id, in the words of the specification\<close>

text \<open>
  Two descriptions of \<^verbatim>\<open>get_valid_entity_id\<close>, to be compared with the function
  itself.  Both lowercase the id and put one \<^verbatim>\<open>-\<close> for every run of characters
  outside the allowed set (\<open>collapse_runs\<close>).  \<open>spec_get_valid_entity_id\<close> rewrites the
  parentheses character by character, every \<^verbatim>\<open>(\<close> to \<^verbatim>\<open>[\<close> and every \<^verbatim>\<open>)\<close> to \<^verbatim>\<open>]\<close>;
  \<open>runs_get_valid_entity_id\<close> rewrites them run by run, a run of \<^verbatim>\<open>(\<close> to one \<^verbatim>\<open>[\<close> and
  a run of \<^verbatim>\<open>)\<close> to one \<^verbatim>\<open>]\<close>.
\<close>

function collapse_runs :: "(char \<Rightarrow> bool) \<Rightarrow> string \<Rightarrow> string" where
  "collapse_runs bad [] = []"
| "collapse_runs bad (c # cs) =
     (if bad c then CHR ''-'' # collapse_runs bad (dropWhile bad cs)
      else c # collapse_runs bad cs)"
  by pat_completeness auto
termination
  by (relation "measure (\<lambda>(bad, s). length s)") (auto simp: le_imp_less_Suc length_dropWhile_le)

definition bracket_char :: "char \<Rightarrow> char" where
  "bracket_char c =
     (if c = CHR ''('' then CHR ''['' else if c = CHR '')'' then CHR '']'' else c)"

function bracket_runs :: "string \<Rightarrow> string" where
  "bracket_runs [] = []"
| "bracket_runs (c # cs) =
     (if c = CHR ''('' then CHR ''['' # bracket_runs (dropWhile (\<lambda>x. x = CHR ''('') cs)
      else if c = CHR '')'' then CHR '']'' # bracket_runs (dropWhile (\<lambda>x. x = CHR '')'') cs)
      else c # bracket_runs cs)"
  by pat_completeness auto
termination
  by (relation "measure length") (auto simp: le_imp_less_Suc length_dropWhile_le)

definition spec_get_valid_entity_id :: "string \<Rightarrow> string" where
  "spec_get_valid_entity_id e =
     collapse_runs (\<lambda>c. \<not> entity_id_char c) (map bracket_char (lower e))"

definition runs_get_valid_entity_id :: "string \<Rightarrow> string" where
  "runs_get_valid_entity_id e =
     collapse_runs (\<lambda>c. \<not> entity_id_char c) (bracket_runs (lower e))"

section \<open>A concrete client\<close>

text \<open>
  An interpreter, a client and a backend to run the operations on: the parser accepts
  every string but \<^verbatim>\<open>bad(\<close>, the decoder reads \<^verbatim>\<open>{}\<close> and \<^verbatim>\<open>1\<close>, the client is
  \<^verbatim>\<open>Zmon('https://zmon.example/')\<close>, and \<open>answer resp\<close> is the backend that answers every
  request with \<open>resp\<close>.
\<close>

definition demo_env :: pyenv where
  "demo_env =
     \<lparr>py_repr = (\<lambda>v. ''<object>''),
      ast_parse = (\<lambda>v. case v of
                     PStr s \<Rightarrow> (if s = ''bad('' then Some ''invalid syntax'' else None)
                   | _ \<Rightarrow> Some ''compile() arg 1 must be a string''),
      json_parse = (\<lambda>s. if s = ''{}'' then Some (JObj fmempty)
                        else if s = ''1'' then Some (JInt 1) else None)\<rparr>"

definition demo_client :: zmon where
  "demo_client =
     Zmon_init demo_env ''https://zmon.example/'' PNone PNone PNone (PInt 10) True
       ''zmon-client''"

definition answer :: "response \<Rightarrow> backend" where
  "answer resp = (\<lambda>rq. Inr resp)"

section \<open>Entity comparison\<close>

lemma py_eq_refl: "py_eq j j"
  by (induction j)
    (auto simp: list_all2_map1 list.rel_refl_strong fmap.rel_map fmap.rel_refl_strong)

lemma compare_entities_returns:
  "compare_entities e1 e2 = Inr True \<or> compare_entities e1 e2 = Inr False"
  by (auto simp: compare_entities_def split: sum.splits)

lemma compare_entities_dicts:
  "compare_entities (PDict m1) (PDict m2) =
     (case to_json True (PDict (fmdrop ''last_modified'' m1)) of
        None \<Rightarrow> Inr False
      | Some j1 \<Rightarrow>
          (case to_json True (PDict (fmdrop ''last_modified'' m2)) of
             None \<Rightarrow> Inr False
           | Some j2 \<Rightarrow> Inr (py_eq j1 j2)))"
  by (simp add: compare_entities_def compare_entities_try_def copy_pop_def json_dumps_def
      split: option.splits)

text \<open>
  Claim C4, as the code has it.  \<^verbatim>\<open>compare_entities\<close> never raises and returns a
  boolean.  It is reflexive on every mapping whose entries other than
  \<^verbatim>\<open>last_modified\<close> the date encoder can write.  It ignores \<^verbatim>\<open>last_modified\<close>: two
  mappings that agree on every other key are interchangeable in either argument, and
  compare equal to each other when they can be written.  When the encoder rejects an
  argument the result is false, so reflexivity stops at the mappings that hold a value
  JSON cannot represent.
\<close>

theorem compare_entities_reflexive_on_serializable:
  "(compare_entities e1 e2 = Inr True \<or> compare_entities e1 e2 = Inr False)
   \<and> (to_json True (PDict (fmdrop ''last_modified'' m)) \<noteq> None
        \<longrightarrow> compare_entities (PDict m) (PDict m) = Inr True)
   \<and> (fmdrop ''last_modified'' m1 = fmdrop ''last_modified'' m2
        \<longrightarrow> compare_entities (PDict m1) e = compare_entities (PDict m2) e
            \<and> compare_entities e (PDict m1) = compare_entities e (PDict m2))
   \<and> (fmdrop ''last_modified'' m1 = fmdrop ''last_modified'' m2
        \<and> to_json True (PDict (fmdrop ''last_modified'' m1)) \<noteq> None
        \<longrightarrow> compare_entities (PDict m1) (PDict m2) = Inr True)
   \<and> (to_json True (PDict (fmdrop ''last_modified'' m1)) = None
        \<or> to_json True (PDict (fmdrop ''last_modified'' m2)) = None
        \<longrightarrow> compare_entities (PDict m1) (PDict m2) = Inr False)"
proof (intro conjI impI)
  show "compare_entities e1 e2 = Inr True \<or> compare_entities e1 e2 = Inr False"
    by (rule compare_entities_returns)
next
  assume "to_json True (PDict (fmdrop ''last_modified'' m)) \<noteq> None"
  then show "compare_entities (PDict m) (PDict m) = Inr True"
    by (auto simp: compare_entities_dicts py_eq_refl)
next
  assume "fmdrop ''last_modified'' m1 = fmdrop ''last_modified'' m2"
  then show "compare_entities (PDict m1) e = compare_entities (PDict m2) e"
    by (simp add: compare_entities_def compare_entities_try_def copy_pop_def)
next
  assume "fmdrop ''last_modified'' m1 = fmdrop ''last_modified'' m2"
  then show "compare_entities e (PDict m1) = compare_entities e (PDict m2)"
    by (auto simp: compare_entities_def compare_entities_try_def copy_pop_def
        split: sum.splits)
next
  assume "fmdrop ''last_modified'' m1 = fmdrop ''last_modified'' m2
        \<and> to_json True (PDict (fmdrop ''last_modified'' m1)) \<noteq> None"
  then show "compare_entities (PDict m1) (PDict m2) = Inr True"
    by (auto simp: compare_entities_dicts py_eq_refl)
next
  assume "to_json True (PDict (fmdrop ''last_modified'' m1)) = None
        \<or> to_json True (PDict (fmdrop ''last_modified'' m2)) = None"
  then show "compare_entities (PDict m1) (PDict m2) = Inr False"
    by (auto simp: compare_entities_dicts split: option.splits)
qed

text \<open>
  The theorem at an entity with a timestamp, the same entity without it, and an entity
  holding an object: the first two compare equal, to themselves and to each other; the
  third compares unequal to the second.
\<close>

theorem compare_entities_reflexive_on_serializable_witness:
  "compare_entities
     (PDict (fmupd ''last_modified'' (PDatetime ''2016-09-08T14:00:12'')
               (fmupd ''id'' (PStr ''a'') fmempty)))
     (PDict (fmupd ''last_modified'' (PDatetime ''2016-09-08T14:00:12'')
               (fmupd ''id'' (PStr ''a'') fmempty))) = Inr True
   \<and> compare_entities
     (PDict (fmupd ''last_modified'' (PDatetime ''2016-09-08T14:00:12'')
               (fmupd ''id'' (PStr ''a'') fmempty)))
     (PDict (fmupd ''id'' (PStr ''a'') fmempty)) = Inr True
   \<and> compare_entities
     (PDict (fmupd ''x'' (PObject 0) fmempty))
     (PDict (fmupd ''id'' (PStr ''a'') fmempty)) = Inr False"
proof -
  let ?A = "fmupd ''last_modified'' (PDatetime ''2016-09-08T14:00:12'')
              (fmupd ''id'' (PStr ''a'') fmempty)"
  let ?B = "fmupd ''id'' (PStr ''a'') fmempty"
  let ?X = "fmupd ''x'' (PObject 0) fmempty"
  have ser: "to_json True (PDict (fmdrop ''last_modified'' ?A)) \<noteq> None"
    by code_simp
  have same: "fmdrop ''last_modified'' ?A = fmdrop ''last_modified'' ?B"
    by code_simp
  have bad: "to_json True (PDict (fmdrop ''last_modified'' ?X)) = None"
    by code_simp
  from ser same
    compare_entities_reflexive_on_serializable [of PNone PNone ?A ?A ?B PNone]
  have "compare_entities (PDict ?A) (PDict ?A) = Inr True"
    and "compare_entities (PDict ?A) (PDict ?B) = Inr True"
    by blast+
  moreover from bad
    compare_entities_reflexive_on_serializable [of PNone PNone ?A ?X ?B PNone]
  have "compare_entities (PDict ?X) (PDict ?B) = Inr False"
    by blast
  ultimately show ?thesis by blast
qed

text \<open>
  Claim C4 as stated asks for \<^verbatim>\<open>compare_entities(e, e)\<close> to be true of every mapping.
  A mapping that holds an object is not equal to itself.
\<close>

theorem compare_entities_reflexive_counterexample:
  "compare_entities (PDict (fmupd ''x'' (PObject 0) fmempty))
     (PDict (fmupd ''x'' (PObject 0) fmempty)) = Inr False"
  by code_simp

section \<open>Entity ids\<close>

lemma re_search_single: "(re_search [P] s = None) = (\<forall>c \<in> set s. \<not> P c)"
  by (induction s) auto

lemma re_sub_single: "re_sub [P] (\<lambda>m. ''-'') s = collapse_runs P s"
proof (induction P s rule: collapse_runs.induct)
  case (1 bad)
  show ?case by simp
next
  case (2 bad c cs)
  show ?case
  proof (cases "bad c")
    case True
    with 2 show ?thesis by (simp add: dropWhile_eq_drop)
  next
    case False
    with 2 show ?thesis by simp
  qed
qed

lemma re_sub_parentheses:
  "re_sub parentheses_re (\<lambda>m. if CHR ''('' \<in> set m then ''['' else '']'') s = bracket_runs s"
proof (induction s rule: bracket_runs.induct)
  case 1
  show ?case by simp
next
  case (2 c cs)
  consider (l) "c = CHR ''(''" | (r) "c = CHR '')''" | (o) "c \<noteq> CHR ''(''" "c \<noteq> CHR '')''"
    by blast
  then show ?case
  proof cases
    case l
    with 2 show ?thesis by (simp add: parentheses_re_def dropWhile_eq_drop)
  next
    case r
    have "CHR ''('' \<notin> set (take (length (takeWhile (\<lambda>x. x = CHR '')'') cs)) cs)"
      unfolding takeWhile_eq_take [symmetric] by (auto dest: set_takeWhileD)
    with r 2 show ?thesis by (simp add: parentheses_re_def dropWhile_eq_drop)
  next
    case o
    with 2 show ?thesis by (simp add: parentheses_re_def)
  qed
qed

lemma get_valid_entity_id_runs: "get_valid_entity_id e = runs_get_valid_entity_id e"
  by (simp add: get_valid_entity_id_def runs_get_valid_entity_id_def invalid_entity_id_re_def
      re_sub_single re_sub_parentheses)

lemma collapse_runs_set: "set (collapse_runs bad s) \<subseteq> {c. \<not> bad c} \<union> {CHR ''-''}"
proof (induction bad s rule: collapse_runs.induct)
  case (1 bad)
  show ?case by simp
next
  case (2 bad c cs)
  then show ?case by (cases "bad c") auto
qed

lemma entity_id_char_dash: "entity_id_char (CHR ''-'')"
  by (simp add: entity_id_char_def)

lemma runs_get_valid_entity_id_valid: "is_valid_entity_id (runs_get_valid_entity_id e)"
proof -
  have "set (runs_get_valid_entity_id e) \<subseteq> {c. entity_id_char c}"
    unfolding runs_get_valid_entity_id_def
    using collapse_runs_set [of "\<lambda>c. \<not> entity_id_char c" "bracket_runs (lower e)"]
      entity_id_char_dash
    by auto
  then show ?thesis
    unfolding is_valid_entity_id_def invalid_entity_id_re_def re_search_single
    by blast
qed

text \<open>
  Claim C6, as the code has it.  For every string, \<^verbatim>\<open>get_valid_entity_id\<close> lowercases
  it, rewrites every run of \<^verbatim>\<open>(\<close> to a single \<^verbatim>\<open>[\<close> and every run of \<^verbatim>\<open>)\<close> to a single
  \<^verbatim>\<open>]\<close>, and collapses every other run of characters outside the allowed set to a
  single \<^verbatim>\<open>-\<close>; \<^verbatim>\<open>get_valid_entity_id("Host (A)")\<close> is \<^verbatim>\<open>"host-[a]"\<close>; and the result
  always satisfies \<^verbatim>\<open>is_valid_entity_id\<close>.
\<close>

theorem get_valid_entity_id_rewrites_runs:
  "get_valid_entity_id e = runs_get_valid_entity_id e
   \<and> get_valid_entity_id ''Host (A)'' = ''host-[a]''
   \<and> is_valid_entity_id (get_valid_entity_id e)"
proof (intro conjI)
  show "get_valid_entity_id e = runs_get_valid_entity_id e"
    by (rule get_valid_entity_id_runs)
  show "get_valid_entity_id ''Host (A)'' = ''host-[a]''"
    by code_simp
  show "is_valid_entity_id (get_valid_entity_id e)"
    by (simp add: get_valid_entity_id_runs runs_get_valid_entity_id_valid)
qed

text \<open>
  Claim C6 as stated rewrites \<^verbatim>\<open>(\<close> to \<^verbatim>\<open>[\<close> and \<^verbatim>\<open>)\<close> to \<^verbatim>\<open>]\<close>, which on \<^verbatim>\<open>((a))\<close>
  gives \<^verbatim>\<open>[[a]]\<close>.  The function gives \<^verbatim>\<open>[a]\<close>: its pattern \<^verbatim>\<open>[(]+|[)]+\<close> takes a whole
  run of parentheses at a time.
\<close>

theorem get_valid_entity_id_counterexample:
  "get_valid_entity_id ''((a))'' = ''[a]''
   \<and> spec_get_valid_entity_id ''((a))'' = ''[[a]]''"
  by code_simp

section \<open>HTTP errors\<close>

text \<open>
  Claim C1 at a failing response.  The backend answers the \<^verbatim>\<open>PUT\<close> of \<^verbatim>\<open>add_member\<close> with
  status 500 and the body \<^verbatim>\<open>1\<close>.  The claim asks for an HTTP error carrying the status;
  \<^verbatim>\<open>add_member\<close> returns true, because its \<^verbatim>\<open>resp.raise_for_status\<close> is never called:
  whatever the status of the response, the result is the comparison of the body with
  \<^verbatim>\<open>1\<close>.  \<^verbatim>\<open>remove_member\<close>, which calls it, raises on the same response.
\<close>

theorem add_member_returns_on_server_error:
  "fst (add_member env self (answer resp) group_name user_name sent)
     = Inr (resp_text resp = ''1'')
   \<and> fst (add_member env self
          (answer \<lparr>status_code = 500, reason = ''Internal Server Error'', resp_text = ''1''\<rparr>)
          group_name user_name sent) = Inr True
   \<and> fst (remove_member env self
          (answer \<lparr>status_code = 500, reason = ''Internal Server Error'', resp_text = ''1''\<rparr>)
          group_name user_name sent) = Inl (HTTPError 500 ''Internal Server Error'' ''1'')"
  by (simp add: add_member_def remove_member_def session_request_def answer_def
      raise_for_status_def)

text \<open>
  Claim C2.  When the backend answers \<^verbatim>\<open>get_check_definition\<close> with status 200 and an
  empty body, the operation raises the HTTP error of status 404 and reason
  \<^verbatim>\<open>Not Found\<close>, the very result it has when the backend answers 404 with an empty
  body.  When the backend answers with status 200 and a body the decoder reads as the
  JSON value \<open>j\<close>, the operation returns \<open>j\<close>.  (A JSON decoder rejects the empty text.)
\<close>

theorem get_check_definition_empty_body_not_found:
  "(be \<lparr>rq_method = ''GET'',
         rq_url = endpoint env self [PStr CHECK_DEF, definition_id] True None,
         rq_params = [], rq_body = None, rq_headers = headers (zmon_session self),
         rq_auth = auth (zmon_session self)\<rparr> = Inr resp
     \<and> status_code resp = 200 \<and> resp_text resp = []
     \<longrightarrow> fst (get_check_definition env self be definition_id sent)
           = Inl (HTTPError 404 ''Not Found'' [])
         \<and> fst (get_check_definition env self be definition_id sent)
           = fst (get_check_definition env self
                    (answer \<lparr>status_code = 404, reason = ''Not Found'', resp_text = []\<rparr>)
                    definition_id sent))
   \<and> (be \<lparr>rq_method = ''GET'',
         rq_url = endpoint env self [PStr CHECK_DEF, definition_id] True None,
         rq_params = [], rq_body = None, rq_headers = headers (zmon_session self),
         rq_auth = auth (zmon_session self)\<rparr> = Inr resp
     \<and> status_code resp = 200 \<and> json_parse env [] = None
     \<and> json_parse env (resp_text resp) = Some j
     \<longrightarrow> fst (get_check_definition env self be definition_id sent) = Inr j)"
  by (auto simp: get_check_definition_def session_request_def answer_def zmon_json_def
      raise_for_status_def resp_json_def)

theorem get_check_definition_empty_body_not_found_witness:
  "fst (get_check_definition demo_env demo_client
          (answer \<lparr>status_code = 200, reason = ''OK'', resp_text = []\<rparr>) (PInt 7) [])
     = Inl (HTTPError 404 ''Not Found'' [])
   \<and> fst (get_check_definition demo_env demo_client
          (answer \<lparr>status_code = 200, reason = ''OK'', resp_text = ''{}''\<rparr>) (PInt 7) [])
     = Inr (JObj fmempty)"
  using
    get_check_definition_empty_body_not_found
      [where be = "answer \<lparr>status_code = 200, reason = ''OK'', resp_text = []\<rparr>"
         and resp = "\<lparr>status_code = 200, reason = ''OK'', resp_text = []\<rparr>"
         and env = demo_env and self = demo_client and definition_id = "PInt 7"
         and sent = "[]"]
    get_check_definition_empty_body_not_found
      [where be = "answer \<lparr>status_code = 200, reason = ''OK'', resp_text = ''{}''\<rparr>"
         and resp = "\<lparr>status_code = 200, reason = ''OK'', resp_text = ''{}''\<rparr>"
         and env = demo_env and self = demo_client and definition_id = "PInt 7"
         and sent = "[]" and j = "JObj fmempty"]
  by (simp add: answer_def demo_env_def)

section \<open>Authentication\<close>

text \<open>
  Claim C3, as the code has it.  For every client construction: if the token is truthy
  (a non-empty string), the session carries the header
  \<^verbatim>\<open>Authorization: Bearer <token>\<close>, has no basic-auth credentials, and the user name
  and password are ignored; if the token is \<^verbatim>\<open>None\<close> and the user name and password are
  both truthy, the session has them as basic-auth credentials and no
  \<^verbatim>\<open>Authorization\<close> header; if the token is \<^verbatim>\<open>None\<close> and one of them is missing, the
  session has neither.  Every request the session sends carries its headers and
  credentials.
\<close>

theorem Zmon_init_authentication:
  "(truthy token
     \<longrightarrow> fmlookup (headers (zmon_session
                  (Zmon_init env u token username password tmo vfy ua))) ''Authorization''
           = Some (''Bearer '' @ py_str env token)
         \<and> auth (zmon_session (Zmon_init env u token username password tmo vfy ua)) = None
         \<and> Zmon_init env u token username password tmo vfy ua
           = Zmon_init env u token PNone PNone tmo vfy ua)
   \<and> (token = PNone \<and> truthy username \<and> truthy password
     \<longrightarrow> auth (zmon_session (Zmon_init env u token username password tmo vfy ua))
           = Some (username, password)
         \<and> fmlookup (headers (zmon_session
                  (Zmon_init env u token username password tmo vfy ua))) ''Authorization''
           = None)
   \<and> (token = PNone \<and> \<not> (truthy username \<and> truthy password)
     \<longrightarrow> auth (zmon_session (Zmon_init env u token username password tmo vfy ua)) = None
         \<and> fmlookup (headers (zmon_session
                  (Zmon_init env u token username password tmo vfy ua))) ''Authorization''
           = None)
   \<and> rq_auth (last (snd (session_request s be meth target ps body sent))) = auth s
   \<and> rq_headers (last (snd (session_request s be meth target ps body sent))) = headers s"
  by (auto simp: Zmon_init_def Let_def requests_Session_def default_headers_def
      session_request_def)

theorem Zmon_init_authentication_witness:
  "fmlookup (headers (zmon_session
       (Zmon_init demo_env ''https://zmon.example/'' (PStr ''t0k3n'') (PStr ''user'')
          (PStr ''secret'') (PInt 10) True ''zmon-client''))) ''Authorization''
     = Some ''Bearer t0k3n''
   \<and> auth (zmon_session
       (Zmon_init demo_env ''https://zmon.example/'' (PStr ''t0k3n'') (PStr ''user'')
          (PStr ''secret'') (PInt 10) True ''zmon-client'')) = None
   \<and> auth (zmon_session
       (Zmon_init demo_env ''https://zmon.example/'' PNone (PStr ''user'')
          (PStr ''secret'') (PInt 10) True ''zmon-client''))
     = Some (PStr ''user'', PStr ''secret'')
   \<and> auth (zmon_session
       (Zmon_init demo_env ''https://zmon.example/'' PNone (PStr ''user'')
          PNone (PInt 10) True ''zmon-client'')) = None"
proof -
  have t: "truthy (PStr ''t0k3n'')"
    by simp
  have up: "PNone = PNone \<and> truthy (PStr ''user'') \<and> truthy (PStr ''secret'')"
    by simp
  have u: "PNone = PNone \<and> \<not> (truthy (PStr ''user'') \<and> truthy PNone)"
    by simp
  note bearer =
    Zmon_init_authentication
      [where token = "PStr ''t0k3n''" and username = "PStr ''user''"
         and password = "PStr ''secret''" and env = demo_env and u = "''https://zmon.example/''"
         and tmo = "PInt 10" and vfy = True and ua = "''zmon-client''",
       THEN conjunct1, THEN mp, OF t]
  note basic =
    Zmon_init_authentication
      [where token = PNone and username = "PStr ''user''"
         and password = "PStr ''secret''" and env = demo_env and u = "''https://zmon.example/''"
         and tmo = "PInt 10" and vfy = True and ua = "''zmon-client''",
       THEN conjunct2, THEN conjunct1, THEN mp, OF up]
  note anonymous =
    Zmon_init_authentication
      [where token = PNone and username = "PStr ''user''"
         and password = PNone and env = demo_env and u = "''https://zmon.example/''"
         and tmo = "PInt 10" and vfy = True and ua = "''zmon-client''",
       THEN conjunct2, THEN conjunct2, THEN conjunct1, THEN mp, OF u]
  show ?thesis
    using bearer [THEN conjunct1] bearer [THEN conjunct2, THEN conjunct1]
      basic [THEN conjunct1] anonymous [THEN conjunct1]
    by (simp add: py_str_def)
qed

text \<open>
  Claim C3 as stated covers every value of the token, the falsy ones that are not
  \<^verbatim>\<open>None\<close> too.  With the empty string as token, and a user name and a password, the
  session has no \<^verbatim>\<open>Authorization\<close> header (the guard is \<^verbatim>\<open>if token\<close>) and no
  credentials (the guard is \<^verbatim>\<open>token is None\<close>).
\<close>

theorem Zmon_init_empty_token_counterexample:
  "fmlookup (headers (zmon_session
       (Zmon_init demo_env ''https://zmon.example/'' (PStr []) (PStr ''user'')
          (PStr ''secret'') (PInt 10) True ''zmon-client''))) ''Authorization'' = None
   \<and> auth (zmon_session
       (Zmon_init demo_env ''https://zmon.example/'' (PStr []) (PStr ''user'')
          (PStr ''secret'') (PInt 10) True ''zmon-client'')) = None"
  by (simp add: Zmon_init_def Let_def requests_Session_def default_headers_def)

section \<open>Check definitions\<close>

text \<open>
  Claim C5.  For every check definition without the key \<^verbatim>\<open>owning_team\<close>,
  \<^verbatim>\<open>update_check_definition\<close> raises an argument error, leaves the argument as it was
  and makes no network call.  For every check definition with \<^verbatim>\<open>owning_team\<close> whose
  \<^verbatim>\<open>command\<close> the parser rejects with the diagnostic \<open>msg\<close>, it raises the validation
  error \<^verbatim>\<open>Invalid check command: msg\<close>, again without a network call.
\<close>

theorem update_check_definition_validates_first:
  "(fmlookup check_definition ''owning_team'' = None
     \<longrightarrow> update_check_definition env self be check_definition sent
           = (Inl (raise_ZmonArgumentError
                     (''Check definition must have '' @ dq @ ''owning_team'' @ dq)),
              check_definition, sent))
   \<and> (fmlookup check_definition ''owning_team'' \<noteq> None
       \<and> fmlookup check_definition ''command'' = Some src \<and> ast_parse env src = Some msg
     \<longrightarrow> fst (update_check_definition env self be check_definition sent)
           = Inl (raise_ZmonError (''Invalid check command: '' @ msg))
         \<and> snd (snd (update_check_definition env self be check_definition sent)) = sent)"
  by (auto simp: update_check_definition_def Let_def set_default_status_def
      validate_check_command_def)

theorem update_check_definition_validates_first_witness:
  "update_check_definition demo_env demo_client
       (answer \<lparr>status_code = 200, reason = ''OK'', resp_text = ''{}''\<rparr>)
       (fmupd ''command'' (PStr ''1'') fmempty) []
     = (Inl (ZmonArgumentError
               (''ZMON client error: Check definition must have '' @ dq @ ''owning_team'' @ dq)),
        fmupd ''command'' (PStr ''1'') fmempty, [])
   \<and> fst (update_check_definition demo_env demo_client
       (answer \<lparr>status_code = 200, reason = ''OK'', resp_text = ''{}''\<rparr>)
       (fmupd ''owning_team'' (PStr ''zmon'') (fmupd ''command'' (PStr ''bad('') fmempty)) [])
     = Inl (ZmonError ''ZMON client error: Invalid check command: invalid syntax'')
   \<and> snd (snd (update_check_definition demo_env demo_client
       (answer \<lparr>status_code = 200, reason = ''OK'', resp_text = ''{}''\<rparr>)
       (fmupd ''owning_team'' (PStr ''zmon'') (fmupd ''command'' (PStr ''bad('') fmempty)) []))
     = []"
  using
    update_check_definition_validates_first
      [where check_definition = "fmupd ''command'' (PStr ''1'') fmempty"
         and env = demo_env and self = demo_client and sent = "[]"
         and be = "answer \<lparr>status_code = 200, reason = ''OK'', resp_text = ''{}''\<rparr>"]
    update_check_definition_validates_first
      [where check_definition
           = "fmupd ''owning_team'' (PStr ''zmon'') (fmupd ''command'' (PStr ''bad('') fmempty)"
         and env = demo_env and self = demo_client and sent = "[]"
         and src = "PStr ''bad(''" and msg = "''invalid syntax''"
         and be = "answer \<lparr>status_code = 200, reason = ''OK'', resp_text = ''{}''\<rparr>"]
  by (simp add: demo_env_def raise_ZmonArgumentError_def raise_ZmonError_def
      zmon_error_message_def)

section \<open>Endpoints\<close>

lemma join_path_api: "join_path env [PStr ''api'', PStr API_VERSION, PStr []] = ''api/v1/''"
  by (simp add: join_path_def py_str_def strip_def API_VERSION_def)

lemma base_url_example:
  "urlunsplit \<lparr>scheme = scheme (urlsplit ''https://zmon.example/'' []),
      netloc = netloc (urlsplit ''https://zmon.example/'' []), path = [], query = [],
      fragment = []\<rparr> = ''https://zmon.example''"
  by code_simp

lemma urljoin_api_example:
  "urljoin ''https://zmon.example'' ''api/v1/'' = ''https://zmon.example/api/v1/''"
  by code_simp

lemma Zmon_init_url_example:
  "url (Zmon_init env ''https://zmon.example/'' token username password tmo vfy ua)
     = ''https://zmon.example/api/v1/''"
  by (simp add: Zmon_init_def Let_def join_path_api base_url_example urljoin_api_example)



lemma urljoin_entities:
  "urljoin ''https://zmon.example/api/v1/'' ''entities''
     = ''https://zmon.example/api/v1/entities''"
  by code_simp

lemma urljoin_quick_search:
  "urljoin ''https://zmon.example/api/v1/'' ''quick-search/''
     = ''https://zmon.example/api/v1/quick-search/''"
  by code_simp

lemma demo_client_url: "url demo_client = ''https://zmon.example/api/v1/''"
  by (simp add: demo_client_def Zmon_init_url_example)

lemma demo_client_auth: "auth (zmon_session demo_client) = None"
  by (simp add: demo_client_def Zmon_init_def Let_def requests_Session_def)



section \<open>Search\<close>

text \<open>
  Claim C7, as the code has it.  \<^verbatim>\<open>search\<close> with a falsy query (the empty string)
  raises an argument error before any network call; \<^verbatim>\<open>search\<close> with a truthy
  \<^verbatim>\<open>teams\<close> argument that is not a list or a tuple raises an argument error, also
  before any network call; and a call with a truthy query and
  \<^verbatim>\<open>teams=["A","B"]\<close> sends one request whose parameter \<^verbatim>\<open>teams\<close> is the single value
  \<^verbatim>\<open>A,B\<close>.
\<close>

theorem search_validates_arguments:
  "(\<not> truthy q
     \<longrightarrow> search env self be q teams sent
           = (Inl (raise_ZmonArgumentError ''No search query value!''), sent))
   \<and> (truthy q \<and> truthy teams \<and> \<not> is_list_or_tuple teams
     \<longrightarrow> search env self be q teams sent
           = (Inl (raise_ZmonArgumentError (dq @ ''teams'' @ dq @ '' should be a list!'')),
              sent))
   \<and> (truthy q
     \<longrightarrow> snd (search env self be q (PList [PStr ''A'', PStr ''B'']) sent)
           = sent @ [\<lparr>rq_method = ''GET'', rq_url = endpoint env self [PStr SEARCH] True None,
                      rq_params = [(''query'', q), (''teams'', PStr ''A,B'')], rq_body = None,
                      rq_headers = headers (zmon_session self),
                      rq_auth = auth (zmon_session self)\<rparr>])"
  by (auto simp: search_def session_request_def Let_def str_join_def split: sum.splits)

theorem search_validates_arguments_witness:
  "search demo_env demo_client
       (answer \<lparr>status_code = 200, reason = ''OK'', resp_text = ''{}''\<rparr>) (PStr []) PNone []
     = (Inl (ZmonArgumentError ''ZMON client error: No search query value!''), [])
   \<and> search demo_env demo_client
       (answer \<lparr>status_code = 200, reason = ''OK'', resp_text = ''{}''\<rparr>)
       (PStr ''zmon'') (PStr ''A'') []
     = (Inl (ZmonArgumentError
               (''ZMON client error: '' @ dq @ ''teams'' @ dq @ '' should be a list!'')), [])
   \<and> map rq_params (snd (search demo_env demo_client
       (answer \<lparr>status_code = 200, reason = ''OK'', resp_text = ''{}''\<rparr>)
       (PStr ''zmon'') (PList [PStr ''A'', PStr ''B'']) []))
     = [[(''query'', PStr ''zmon''), (''teams'', PStr ''A,B'')]]"
  using
    search_validates_arguments
      [where q = "PStr []" and teams = PNone and env = demo_env and self = demo_client
         and sent = "[]"
         and be = "answer \<lparr>status_code = 200, reason = ''OK'', resp_text = ''{}''\<rparr>"]
    search_validates_arguments
      [where q = "PStr ''zmon''" and teams = "PStr ''A''" and env = demo_env
         and self = demo_client and sent = "[]"
         and be = "answer \<lparr>status_code = 200, reason = ''OK'', resp_text = ''{}''\<rparr>"]
  by (simp add: raise_ZmonArgumentError_def zmon_error_message_def)

text \<open>
  Claim C7 as stated has every \<^verbatim>\<open>teams\<close> argument that is not a sequence rejected.  The
  empty string is not a list or a tuple, and \<^verbatim>\<open>search\<close> accepts it: the type check is
  guarded by \<^verbatim>\<open>if teams and ...\<close>.  The request goes out without a \<^verbatim>\<open>teams\<close> parameter
  and the decoded answer is returned.
\<close>

theorem search_falsy_teams_counterexample:
  "fst (search demo_env demo_client
          (answer \<lparr>status_code = 200, reason = ''OK'', resp_text = ''{}''\<rparr>)
          (PStr ''zmon'') (PStr []) []) = Inr (JObj fmempty)
   \<and> map rq_params (snd (search demo_env demo_client
          (answer \<lparr>status_code = 200, reason = ''OK'', resp_text = ''{}''\<rparr>)
          (PStr ''zmon'') (PStr []) [])) = [[(''query'', PStr ''zmon'')]]"
  by (simp add: search_def session_request_def Let_def answer_def zmon_json_def
      raise_for_status_def resp_json_def demo_env_def)

section \<open>Arguments written in place\<close>

text \<open>
  Claim C9, as the code has it.  \<^verbatim>\<open>update_check_definition\<close>,
  \<^verbatim>\<open>create_alert_definition\<close> and \<^verbatim>\<open>update_alert_definition\<close> write into the dict they
  are given.  A dict that has the key \<^verbatim>\<open>status\<close> is, after the call, as it was before.
  A dict without \<^verbatim>\<open>status\<close> gets \<^verbatim>\<open>status\<close> set to \<^verbatim>\<open>ACTIVE\<close>, every other key staying
  as it was, and the request the operation sends carries that dict, \<^verbatim>\<open>status\<close>
  included, as its JSON body.  The moment of the write differs:
  \<^item> \<^verbatim>\<open>update_check_definition\<close> writes once \<^verbatim>\<open>owning_team\<close> is found, before the
    command is validated: a dict whose command is rejected has gained \<^verbatim>\<open>status\<close>, and
    no request was sent;
  \<^item> \<^verbatim>\<open>create_alert_definition\<close> writes once \<^verbatim>\<open>last_modified_by\<close> is found, before it
    looks for \<^verbatim>\<open>check_definition_id\<close>: a dict rejected for that key has gained
    \<^verbatim>\<open>status\<close>, and no request was sent;
  \<^item> \<^verbatim>\<open>update_alert_definition\<close> writes after all three of its checks: a dict it
    rejects is left as it was.
\<close>

theorem status_default_written_in_place:
  "(fmlookup d ''status'' \<noteq> None
     \<longrightarrow> fst (snd (update_check_definition env self be d sent)) = d
         \<and> fst (snd (create_alert_definition env self be d sent)) = d
         \<and> fst (snd (update_alert_definition env self be d sent)) = d)
   \<and> (fmlookup d ''owning_team'' = None
     \<longrightarrow> fst (snd (update_check_definition env self be d sent)) = d)
   \<and> (fmlookup d ''status'' = None \<and> fmlookup d ''owning_team'' \<noteq> None
     \<longrightarrow> fst (snd (update_check_definition env self be d sent))
           = fmupd ''status'' (PStr ''ACTIVE'') d)
   \<and> (fmlookup d ''status'' = None \<and> fmlookup d ''owning_team'' \<noteq> None
       \<and> fmlookup d ''command'' = Some src \<and> ast_parse env src = Some msg
     \<longrightarrow> update_check_definition env self be d sent
           = (Inl (raise_ZmonError (''Invalid check command: '' @ msg)),
              fmupd ''status'' (PStr ''ACTIVE'') d, sent))
   \<and> (fmlookup d ''status'' = None \<and> fmlookup d ''owning_team'' \<noteq> None
       \<and> fmlookup d ''command'' = Some src \<and> ast_parse env src = None
     \<longrightarrow> (\<forall>body. to_json False (PDict (fmupd ''status'' (PStr ''ACTIVE'') d)) = Some body
              \<longrightarrow> map rq_body (snd (snd (update_check_definition env self be d sent)))
                    = map rq_body sent @ [Some body]))
   \<and> (fmlookup d ''last_modified_by'' = None
     \<longrightarrow> fst (snd (create_alert_definition env self be d sent)) = d)
   \<and> (fmlookup d ''status'' = None \<and> fmlookup d ''last_modified_by'' \<noteq> None
     \<longrightarrow> fst (snd (create_alert_definition env self be d sent))
           = fmupd ''status'' (PStr ''ACTIVE'') d)
   \<and> (fmlookup d ''status'' = None \<and> fmlookup d ''last_modified_by'' \<noteq> None
       \<and> fmlookup d ''check_definition_id'' = None
     \<longrightarrow> create_alert_definition env self be d sent
           = (Inl (raise_ZmonArgumentError
                     (''Alert defintion must have '' @ dq @ ''check_definition_id'' @ dq)),
              fmupd ''status'' (PStr ''ACTIVE'') d, sent))
   \<and> (fmlookup d ''status'' = None \<and> fmlookup d ''last_modified_by'' \<noteq> None
       \<and> fmlookup d ''check_definition_id'' \<noteq> None
     \<longrightarrow> (\<forall>body. to_json False (PDict (fmupd ''status'' (PStr ''ACTIVE'') d)) = Some body
              \<longrightarrow> map rq_body (snd (snd (create_alert_definition env self be d sent)))
                    = map rq_body sent @ [Some body]))
   \<and> (fmlookup d ''last_modified_by'' = None \<or> fmlookup d ''id'' = None
       \<or> fmlookup d ''check_definition_id'' = None
     \<longrightarrow> fst (snd (update_alert_definition env self be d sent)) = d
         \<and> snd (snd (update_alert_definition env self be d sent)) = sent)
   \<and> (fmlookup d ''status'' = None \<and> fmlookup d ''last_modified_by'' \<noteq> None
       \<and> fmlookup d ''id'' \<noteq> None \<and> fmlookup d ''check_definition_id'' \<noteq> None
     \<longrightarrow> fst (snd (update_alert_definition env self be d sent))
           = fmupd ''status'' (PStr ''ACTIVE'') d
         \<and> (\<forall>body. to_json False (PDict (fmupd ''status'' (PStr ''ACTIVE'') d)) = Some body
              \<longrightarrow> map rq_body (snd (snd (update_alert_definition env self be d sent)))
                    = map rq_body sent @ [Some body]))"
proof (intro conjI impI allI)
  assume "fmlookup d ''status'' \<noteq> None"
  then show "fst (snd (update_check_definition env self be d sent)) = d"
    by (auto simp: update_check_definition_def Let_def set_default_status_def
        split: option.splits sum.splits prod.splits)
next
  assume "fmlookup d ''status'' \<noteq> None"
  then show "fst (snd (create_alert_definition env self be d sent)) = d"
    by (auto simp: create_alert_definition_def Let_def set_default_status_def
        split: option.splits sum.splits prod.splits)
next
  assume "fmlookup d ''status'' \<noteq> None"
  then show "fst (snd (update_alert_definition env self be d sent)) = d"
    by (auto simp: update_alert_definition_def Let_def set_default_status_def
        split: option.splits sum.splits prod.splits)
next
  assume "fmlookup d ''owning_team'' = None"
  then show "fst (snd (update_check_definition env self be d sent)) = d"
    by (simp add: update_check_definition_def)
next
  assume "fmlookup d ''status'' = None \<and> fmlookup d ''owning_team'' \<noteq> None"
  then show "fst (snd (update_check_definition env self be d sent))
           = fmupd ''status'' (PStr ''ACTIVE'') d"
    by (auto simp: update_check_definition_def Let_def set_default_status_def
        split: option.splits sum.splits prod.splits)
next
  assume "fmlookup d ''status'' = None \<and> fmlookup d ''owning_team'' \<noteq> None
       \<and> fmlookup d ''command'' = Some src \<and> ast_parse env src = Some msg"
  then show "update_check_definition env self be d sent
           = (Inl (raise_ZmonError (''Invalid check command: '' @ msg)),
              fmupd ''status'' (PStr ''ACTIVE'') d, sent)"
    by (auto simp: update_check_definition_def Let_def set_default_status_def
        validate_check_command_def)
next
  fix body
  assume "fmlookup d ''status'' = None \<and> fmlookup d ''owning_team'' \<noteq> None
       \<and> fmlookup d ''command'' = Some src \<and> ast_parse env src = None"
    and "to_json False (PDict (fmupd ''status'' (PStr ''ACTIVE'') d)) = Some body"
  then show "map rq_body (snd (snd (update_check_definition env self be d sent)))
                    = map rq_body sent @ [Some body]"
    by (auto simp: update_check_definition_def Let_def set_default_status_def
        validate_check_command_def session_request_json_def json_dumps_def
        session_request_def split: sum.splits)
next
  assume "fmlookup d ''last_modified_by'' = None"
  then show "fst (snd (create_alert_definition env self be d sent)) = d"
    by (simp add: create_alert_definition_def)
next
  assume "fmlookup d ''status'' = None \<and> fmlookup d ''last_modified_by'' \<noteq> None"
  then show "fst (snd (create_alert_definition env self be d sent))
           = fmupd ''status'' (PStr ''ACTIVE'') d"
    by (auto simp: create_alert_definition_def Let_def set_default_status_def
        split: option.splits sum.splits prod.splits)
next
  assume "fmlookup d ''status'' = None \<and> fmlookup d ''last_modified_by'' \<noteq> None
       \<and> fmlookup d ''check_definition_id'' = None"
  then show "create_alert_definition env self be d sent
           = (Inl (raise_ZmonArgumentError
                     (''Alert defintion must have '' @ dq @ ''check_definition_id'' @ dq)),
              fmupd ''status'' (PStr ''ACTIVE'') d, sent)"
    by (auto simp: create_alert_definition_def Let_def set_default_status_def)
next
  fix body
  assume "fmlookup d ''status'' = None \<and> fmlookup d ''last_modified_by'' \<noteq> None
       \<and> fmlookup d ''check_definition_id'' \<noteq> None"
    and "to_json False (PDict (fmupd ''status'' (PStr ''ACTIVE'') d)) = Some body"
  then show "map rq_body (snd (snd (create_alert_definition env self be d sent)))
                    = map rq_body sent @ [Some body]"
    by (auto simp: create_alert_definition_def Let_def set_default_status_def
        session_request_json_def json_dumps_def session_request_def split: sum.splits)
next
  assume "fmlookup d ''last_modified_by'' = None \<or> fmlookup d ''id'' = None
       \<or> fmlookup d ''check_definition_id'' = None"
  then show "fst (snd (update_alert_definition env self be d sent)) = d"
    by (auto simp: update_alert_definition_def split: option.splits)
next
  assume "fmlookup d ''last_modified_by'' = None \<or> fmlookup d ''id'' = None
       \<or> fmlookup d ''check_definition_id'' = None"
  then show "snd (snd (update_alert_definition env self be d sent)) = sent"
    by (auto simp: update_alert_definition_def split: option.splits)
next
  assume "fmlookup d ''status'' = None \<and> fmlookup d ''last_modified_by'' \<noteq> None
       \<and> fmlookup d ''id'' \<noteq> None \<and> fmlookup d ''check_definition_id'' \<noteq> None"
  then show "fst (snd (update_alert_definition env self be d sent))
           = fmupd ''status'' (PStr ''ACTIVE'') d"
    by (auto simp: update_alert_definition_def Let_def set_default_status_def
        split: option.splits sum.splits prod.splits)
next
  fix body
  assume "fmlookup d ''status'' = None \<and> fmlookup d ''last_modified_by'' \<noteq> None
       \<and> fmlookup d ''id'' \<noteq> None \<and> fmlookup d ''check_definition_id'' \<noteq> None"
    and "to_json False (PDict (fmupd ''status'' (PStr ''ACTIVE'') d)) = Some body"
  then show "map rq_body (snd (snd (update_alert_definition env self be d sent)))
                    = map rq_body sent @ [Some body]"
    by (auto simp: update_alert_definition_def Let_def set_default_status_def
        session_request_json_def json_dumps_def session_request_def split: sum.splits)
qed

text \<open>
  The theorem on the client for \<^verbatim>\<open>https://zmon.example/\<close>: a check definition with
  \<^verbatim>\<open>status\<close>, one without \<^verbatim>\<open>owning_team\<close>, a valid one, one whose command is rejected,
  and alert definitions with all keys, without \<^verbatim>\<open>check_definition_id\<close> and without
  any key.
\<close>

theorem status_default_written_in_place_witness:
  "fst (snd (update_check_definition demo_env demo_client
        (answer \<lparr>status_code = 200, reason = ''OK'', resp_text = ''{}''\<rparr>)
        (fmupd ''status'' (PStr ''INACTIVE'') (fmupd ''owning_team'' (PStr ''zmon'') fmempty)) [])) = (fmupd ''status'' (PStr ''INACTIVE'') (fmupd ''owning_team'' (PStr ''zmon'') fmempty))
   \<and> fst (snd (update_check_definition demo_env demo_client
        (answer \<lparr>status_code = 200, reason = ''OK'', resp_text = ''{}''\<rparr>)
        (fmupd ''command'' (PStr ''1'') fmempty) [])) = (fmupd ''command'' (PStr ''1'') fmempty)
   \<and> fst (snd (update_check_definition demo_env demo_client
        (answer \<lparr>status_code = 200, reason = ''OK'', resp_text = ''{}''\<rparr>)
        (fmupd ''owning_team'' (PStr ''zmon'') (fmupd ''command'' (PStr ''1'') fmempty)) []))
     = (fmupd ''status'' (PStr ''ACTIVE'') (fmupd ''owning_team'' (PStr ''zmon'') (fmupd ''command'' (PStr ''1'') fmempty)))
   \<and> update_check_definition demo_env demo_client
        (answer \<lparr>status_code = 200, reason = ''OK'', resp_text = ''{}''\<rparr>)
        (fmupd ''owning_team'' (PStr ''zmon'') (fmupd ''command'' (PStr ''bad('') fmempty)) []
     = (Inl (ZmonError ''ZMON client error: Invalid check command: invalid syntax''),
        (fmupd ''status'' (PStr ''ACTIVE'') (fmupd ''owning_team'' (PStr ''zmon'') (fmupd ''command'' (PStr ''bad('') fmempty))), [])
   \<and> map rq_body (snd (snd (update_check_definition demo_env demo_client
        (answer \<lparr>status_code = 200, reason = ''OK'', resp_text = ''{}''\<rparr>)
        (fmupd ''owning_team'' (PStr ''zmon'') (fmupd ''command'' (PStr ''1'') fmempty)) [])))
     = [Some (JObj (fmupd ''status'' (JStr ''ACTIVE'')
          (fmupd ''owning_team'' (JStr ''zmon'') (fmupd ''command'' (JStr ''1'') fmempty))))]
   \<and> fst (snd (create_alert_definition demo_env demo_client
        (answer \<lparr>status_code = 200, reason = ''OK'', resp_text = ''{}''\<rparr>)
        fmempty [])) = fmempty
   \<and> fst (snd (create_alert_definition demo_env demo_client
        (answer \<lparr>status_code = 200, reason = ''OK'', resp_text = ''{}''\<rparr>)
        (fmupd ''last_modified_by'' (PStr ''ops'')
          (fmupd ''check_definition_id'' (PInt 5) (fmupd ''id'' (PInt 9) fmempty))) []))
     = (fmupd ''status'' (PStr ''ACTIVE'') (fmupd ''last_modified_by'' (PStr ''ops'')
          (fmupd ''check_definition_id'' (PInt 5) (fmupd ''id'' (PInt 9) fmempty))))
   \<and> create_alert_definition demo_env demo_client
        (answer \<lparr>status_code = 200, reason = ''OK'', resp_text = ''{}''\<rparr>)
        (fmupd ''last_modified_by'' (PStr ''ops'') (fmupd ''id'' (PInt 9) fmempty)) []
     = (Inl (ZmonArgumentError
               (''ZMON client error: Alert defintion must have '' @ dq
                @ ''check_definition_id'' @ dq)),
        (fmupd ''status'' (PStr ''ACTIVE'') (fmupd ''last_modified_by'' (PStr ''ops'') (fmupd ''id'' (PInt 9) fmempty))), [])
   \<and> map rq_body (snd (snd (create_alert_definition demo_env demo_client
        (answer \<lparr>status_code = 200, reason = ''OK'', resp_text = ''{}''\<rparr>)
        (fmupd ''last_modified_by'' (PStr ''ops'')
          (fmupd ''check_definition_id'' (PInt 5) (fmupd ''id'' (PInt 9) fmempty))) [])))
     = [Some (JObj (fmupd ''status'' (JStr ''ACTIVE'')
          (fmupd ''last_modified_by'' (JStr ''ops'')
             (fmupd ''check_definition_id'' (JInt 5) (fmupd ''id'' (JInt 9) fmempty)))))]
   \<and> fst (snd (update_alert_definition demo_env demo_client
        (answer \<lparr>status_code = 200, reason = ''OK'', resp_text = ''{}''\<rparr>)
        (fmupd ''last_modified_by'' (PStr ''ops'') (fmupd ''id'' (PInt 9) fmempty)) [])) = (fmupd ''last_modified_by'' (PStr ''ops'') (fmupd ''id'' (PInt 9) fmempty))
   \<and> fst (snd (update_alert_definition demo_env demo_client
        (answer \<lparr>status_code = 200, reason = ''OK'', resp_text = ''{}''\<rparr>)
        (fmupd ''last_modified_by'' (PStr ''ops'')
          (fmupd ''check_definition_id'' (PInt 5) (fmupd ''id'' (PInt 9) fmempty))) []))
     = (fmupd ''status'' (PStr ''ACTIVE'') (fmupd ''last_modified_by'' (PStr ''ops'')
          (fmupd ''check_definition_id'' (PInt 5) (fmupd ''id'' (PInt 9) fmempty))))
   \<and> map rq_body (snd (snd (update_alert_definition demo_env demo_client
        (answer \<lparr>status_code = 200, reason = ''OK'', resp_text = ''{}''\<rparr>)
        (fmupd ''last_modified_by'' (PStr ''ops'')
          (fmupd ''check_definition_id'' (PInt 5) (fmupd ''id'' (PInt 9) fmempty))) [])))
     = [Some (JObj (fmupd ''status'' (JStr ''ACTIVE'')
          (fmupd ''last_modified_by'' (JStr ''ops'')
             (fmupd ''check_definition_id'' (JInt 5) (fmupd ''id'' (JInt 9) fmempty)))))]"
proof -
  let ?be = "answer \<lparr>status_code = 200, reason = ''OK'', resp_text = ''{}''\<rparr>"
  let ?cd = "fmupd ''owning_team'' (PStr ''zmon'') (fmupd ''command'' (PStr ''1'') fmempty)"
  let ?bad = "fmupd ''owning_team'' (PStr ''zmon'') (fmupd ''command'' (PStr ''bad('') fmempty)"
  let ?no = "fmupd ''command'' (PStr ''1'') fmempty"
  let ?st = "fmupd ''status'' (PStr ''INACTIVE'') (fmupd ''owning_team'' (PStr ''zmon'') fmempty)"
  let ?ad = "fmupd ''last_modified_by'' (PStr ''ops'')
          (fmupd ''check_definition_id'' (PInt 5) (fmupd ''id'' (PInt 9) fmempty))"
  let ?nc = "fmupd ''last_modified_by'' (PStr ''ops'') (fmupd ''id'' (PInt 9) fmempty)"
  have h1: "fmlookup ?st ''status'' \<noteq> None"
    by simp
  have h2: "fmlookup ?no ''owning_team'' = None"
    by simp
  have h3: "fmlookup ?cd ''status'' = None \<and> fmlookup ?cd ''owning_team'' \<noteq> None"
    by simp
  have h4: "fmlookup ?bad ''status'' = None \<and> fmlookup ?bad ''owning_team'' \<noteq> None
       \<and> fmlookup ?bad ''command'' = Some (PStr ''bad('')
       \<and> ast_parse demo_env (PStr ''bad('') = Some ''invalid syntax''"
    by (simp add: demo_env_def)
  have h5: "fmlookup ?cd ''status'' = None \<and> fmlookup ?cd ''owning_team'' \<noteq> None
       \<and> fmlookup ?cd ''command'' = Some (PStr ''1'')
       \<and> ast_parse demo_env (PStr ''1'') = None"
    by (simp add: demo_env_def)
  have b5: "to_json False (PDict (fmupd ''status'' (PStr ''ACTIVE'') ?cd))
      = Some (JObj (fmupd ''status'' (JStr ''ACTIVE'')
          (fmupd ''owning_team'' (JStr ''zmon'') (fmupd ''command'' (JStr ''1'') fmempty))))"
    by code_simp
  have h6: "fmlookup (fmempty :: pydict) ''last_modified_by'' = None"
    by simp
  have h7: "fmlookup ?ad ''status'' = None \<and> fmlookup ?ad ''last_modified_by'' \<noteq> None"
    by simp
  have h8: "fmlookup ?nc ''status'' = None \<and> fmlookup ?nc ''last_modified_by'' \<noteq> None
       \<and> fmlookup ?nc ''check_definition_id'' = None"
    by simp
  have h9: "fmlookup ?ad ''status'' = None \<and> fmlookup ?ad ''last_modified_by'' \<noteq> None
       \<and> fmlookup ?ad ''check_definition_id'' \<noteq> None"
    by simp
  have b9: "to_json False (PDict (fmupd ''status'' (PStr ''ACTIVE'') ?ad))
      = Some (JObj (fmupd ''status'' (JStr ''ACTIVE'')
          (fmupd ''last_modified_by'' (JStr ''ops'')
             (fmupd ''check_definition_id'' (JInt 5) (fmupd ''id'' (JInt 9) fmempty)))))"
    by code_simp
  have h10: "fmlookup ?nc ''last_modified_by'' = None \<or> fmlookup ?nc ''id'' = None
       \<or> fmlookup ?nc ''check_definition_id'' = None"
    by simp
  have h11: "fmlookup ?ad ''status'' = None \<and> fmlookup ?ad ''last_modified_by'' \<noteq> None
       \<and> fmlookup ?ad ''id'' \<noteq> None \<and> fmlookup ?ad ''check_definition_id'' \<noteq> None"
    by simp
  note c1 =
    status_default_written_in_place
      [where d = "?st" and env = demo_env and self = demo_client and be = ?be
         and sent = "[]",
       THEN conjunct1, THEN mp, OF h1]
  note c2 =
    status_default_written_in_place
      [where d = "?no" and env = demo_env and self = demo_client and be = ?be
         and sent = "[]",
       THEN conjunct2, THEN conjunct1, THEN mp, OF h2]
  note c3 =
    status_default_written_in_place
      [where d = "?cd" and env = demo_env and self = demo_client and be = ?be
         and sent = "[]",
       THEN conjunct2, THEN conjunct2, THEN conjunct1, THEN mp, OF h3]
  note c4 =
    status_default_written_in_place
      [where d = "?bad" and env = demo_env and self = demo_client and be = ?be
         and sent = "[]" and src = "PStr ''bad(''" and msg = "''invalid syntax''",
       THEN conjunct2, THEN conjunct2, THEN conjunct2, THEN conjunct1, THEN mp, OF h4]
  note c5 =
    status_default_written_in_place
      [where d = "?cd" and env = demo_env and self = demo_client and be = ?be
         and sent = "[]" and src = "PStr ''1''",
       THEN conjunct2, THEN conjunct2, THEN conjunct2, THEN conjunct2, THEN conjunct1, THEN mp, OF h5]
  note c6 =
    status_default_written_in_place
      [where d = "fmempty" and env = demo_env and self = demo_client and be = ?be
         and sent = "[]",
       THEN conjunct2, THEN conjunct2, THEN conjunct2, THEN conjunct2, THEN conjunct2, THEN conjunct1, THEN mp, OF h6]
  note c7 =
    status_default_written_in_place
      [where d = "?ad" and env = demo_env and self = demo_client and be = ?be
         and sent = "[]",
       THEN conjunct2, THEN conjunct2, THEN conjunct2, THEN conjunct2, THEN conjunct2, THEN conjunct2, THEN conjunct1, THEN mp, OF h7]
  note c8 =
    status_default_written_in_place
      [where d = "?nc" and env = demo_env and self = demo_client and be = ?be
         and sent = "[]",
       THEN conjunct2, THEN conjunct2, THEN conjunct2, THEN conjunct2, THEN conjunct2, THEN conjunct2, THEN conjunct2, THEN conjunct1, THEN mp, OF h8]
  note c9 =
    status_default_written_in_place
      [where d = "?ad" and env = demo_env and self = demo_client and be = ?be
         and sent = "[]",
       THEN conjunct2, THEN conjunct2, THEN conjunct2, THEN conjunct2, THEN conjunct2, THEN conjunct2, THEN conjunct2, THEN conjunct2, THEN conjunct1, THEN mp, OF h9]
  note c10 =
    status_default_written_in_place
      [where d = "?nc" and env = demo_env and self = demo_client and be = ?be
         and sent = "[]",
       THEN conjunct2, THEN conjunct2, THEN conjunct2, THEN conjunct2, THEN conjunct2, THEN conjunct2, THEN conjunct2, THEN conjunct2, THEN conjunct2, THEN conjunct1, THEN mp, OF h10]
  note c11 =
    status_default_written_in_place
      [where d = "?ad" and env = demo_env and self = demo_client and be = ?be
         and sent = "[]",
       THEN conjunct2, THEN conjunct2, THEN conjunct2, THEN conjunct2, THEN conjunct2, THEN conjunct2, THEN conjunct2, THEN conjunct2, THEN conjunct2, THEN conjunct2, THEN mp, OF h11]
  show ?thesis
    using c1 [THEN conjunct1] c2 c3 c4 c5 [THEN spec, THEN mp, OF b5] c6 c7 c8
      c9 [THEN spec, THEN mp, OF b9] c10 [THEN conjunct1] c11 [THEN conjunct1]
      c11 [THEN conjunct2, THEN spec, THEN mp, OF b9]
    by (simp add: raise_ZmonError_def raise_ZmonArgumentError_def zmon_error_message_def)
qed

text \<open>
  Claim C9 as stated has \<^verbatim>\<open>status\<close> inserted after validation.  An alert definition
  that holds \<^verbatim>\<open>last_modified_by\<close> alone is rejected by \<^verbatim>\<open>create_alert_definition\<close> for its
  missing \<^verbatim>\<open>check_definition_id\<close>, and a check definition whose command does not parse
  is rejected by \<^verbatim>\<open>update_check_definition\<close>; no request is sent, and in both the
  caller's dict has gained \<^verbatim>\<open>status\<close> all the same.
\<close>

theorem status_written_before_validation_counterexample:
  "create_alert_definition demo_env demo_client
       (answer \<lparr>status_code = 200, reason = ''OK'', resp_text = ''{}''\<rparr>)
       (fmupd ''last_modified_by'' (PStr ''me'') fmempty) []
     = (Inl (ZmonArgumentError
               (''ZMON client error: Alert defintion must have '' @ dq
                @ ''check_definition_id'' @ dq)),
        fmupd ''status'' (PStr ''ACTIVE'') (fmupd ''last_modified_by'' (PStr ''me'') fmempty),
        [])
   \<and> update_check_definition demo_env demo_client
       (answer \<lparr>status_code = 200, reason = ''OK'', resp_text = ''{}''\<rparr>)
       (fmupd ''owning_team'' (PStr ''t'') (fmupd ''command'' (PStr ''bad('') fmempty)) []
     = (Inl (ZmonError ''ZMON client error: Invalid check command: invalid syntax''),
        fmupd ''status'' (PStr ''ACTIVE'')
          (fmupd ''owning_team'' (PStr ''t'') (fmupd ''command'' (PStr ''bad('') fmempty)),
        [])"
  by (simp add: create_alert_definition_def update_check_definition_def Let_def
      set_default_status_def validate_check_command_def demo_env_def
      raise_ZmonError_def raise_ZmonArgumentError_def zmon_error_message_def)

section \<open>Entities with an empty id\<close>

text \<open>
  Claim C10.  \<^verbatim>\<open>is_valid_entity_id\<close> is true of the empty string: the search for a
  character outside the allowed set finds none.  So \<^verbatim>\<open>add_entity\<close> on an entity whose
  \<^verbatim>\<open>id\<close> is the empty string and whose \<^verbatim>\<open>type\<close> is present raises no argument error,
  and goes on to send its request: the entity, once written as JSON, is the body of a
  \<^verbatim>\<open>PUT\<close> to the entities endpoint.
\<close>

theorem add_entity_accepts_empty_id:
  "is_valid_entity_id []
   \<and> (fmlookup entity ''id'' = Some (PStr []) \<and> fmlookup entity ''type'' \<noteq> None
     \<longrightarrow> (\<forall>message. fst (add_entity env self be entity sent) \<noteq> Inl (ZmonArgumentError message))
         \<and> (\<forall>data. to_json True (PDict entity) = Some data
              \<longrightarrow> snd (add_entity env self be entity sent)
                    = sent @ [\<lparr>rq_method = ''PUT'',
                               rq_url = endpoint env self [PStr ENTITIES] False None,
                               rq_params = [], rq_body = Some data,
                               rq_headers = headers (zmon_session self),
                               rq_auth = auth (zmon_session self)\<rparr>]))"
proof (intro conjI impI allI)
  show "is_valid_entity_id []"
    by (simp add: is_valid_entity_id_def)
next
  fix message
  assume "fmlookup entity ''id'' = Some (PStr []) \<and> fmlookup entity ''type'' \<noteq> None"
  then show "fst (add_entity env self be entity sent) \<noteq> Inl (ZmonArgumentError message)"
    by (auto simp: add_entity_def is_valid_entity_id_def json_dumps_def session_request_def
        Let_def raise_for_status_def split: option.splits sum.splits)
next
  fix data
  assume "fmlookup entity ''id'' = Some (PStr []) \<and> fmlookup entity ''type'' \<noteq> None"
    and "to_json True (PDict entity) = Some data"
  then show "snd (add_entity env self be entity sent)
                    = sent @ [\<lparr>rq_method = ''PUT'',
                               rq_url = endpoint env self [PStr ENTITIES] False None,
                               rq_params = [], rq_body = Some data,
                               rq_headers = headers (zmon_session self),
                               rq_auth = auth (zmon_session self)\<rparr>]"
    by (auto simp: add_entity_def is_valid_entity_id_def json_dumps_def session_request_def
        Let_def split: option.splits sum.splits)
qed

theorem add_entity_accepts_empty_id_witness:
  "map (\<lambda>rq. (rq_method rq, rq_url rq, rq_body rq))
     (snd (add_entity demo_env demo_client
        (answer \<lparr>status_code = 200, reason = ''OK'', resp_text = []\<rparr>)
        (fmupd ''id'' (PStr []) (fmupd ''type'' (PStr ''host'') fmempty)) []))
   = [(''PUT'', ''https://zmon.example/api/v1/entities'',
       Some (JObj (fmupd ''id'' (JStr []) (fmupd ''type'' (JStr ''host'') fmempty))))]"
proof -
  let ?e = "fmupd ''id'' (PStr []) (fmupd ''type'' (PStr ''host'') fmempty)"
  have e: "fmlookup ?e ''id'' = Some (PStr []) \<and> fmlookup ?e ''type'' \<noteq> None"
    by simp
  have data: "to_json True (PDict ?e)
      = Some (JObj (fmupd ''id'' (JStr []) (fmupd ''type'' (JStr ''host'') fmempty)))"
    by code_simp
  have target: "endpoint demo_env demo_client [PStr ENTITIES] False None
      = ''https://zmon.example/api/v1/entities''"
    by (simp add: endpoint_def demo_client_url join_path_def py_str_def strip_def ENTITIES_def
        urljoin_entities)
  show ?thesis
    using add_entity_accepts_empty_id
      [where entity = ?e and env = demo_env and self = demo_client and sent = "[]"
         and be = "answer \<lparr>status_code = 200, reason = ''OK'', resp_text = []\<rparr>",
       THEN conjunct2, THEN mp, OF e, THEN conjunct2, THEN spec, THEN mp, OF data]
      target
    by simp
qed

end
